theory Spec2Isabelle
  imports Main "HOL-Library.Char_ord" "HOL-Library.List_Lexorder" "HOL-Library.AList"
begin

section \<open>Data model (k8s.io/api/core/v1 and batch/v1, the fields job.go reads)\<close>

text \<open>
  A \<open>core.Container\<close>: the fields that job.go reads or writes. Go's zero value of the
  struct (what a map lookup of a missing key yields) has every field empty.
\<close>

record Container =
  c_Name :: string
  c_Image :: string
  c_Command :: "string list"
  c_Args :: "string list"

definition zeroContainer :: Container where
  "zeroContainer = \<lparr>c_Name = [], c_Image = [], c_Command = [], c_Args = []\<rparr>"

text \<open>
  \<open>core.ContainerStateTerminated\<close> and \<open>core.ContainerStatus\<close>. The field
  \<open>State.Terminated\<close> is a pointer: \<open>None\<close> is the nil pointer (the container is
  waiting or running).
\<close>

record ContainerStateTerminated =
  t_ExitCode :: int
  t_Reason :: string

record ContainerStatus =
  cs_Name :: string
  cs_Terminated :: "ContainerStateTerminated option"

text \<open>
  \<open>core.Pod\<close>: metadata, the spec's two container lists, and the status. The phase is
  a Go string (\<open>core.PodPhase\<close>), so any string can occur.
\<close>

record Pod =
  p_Name :: string
  p_Namespace :: string
  p_InitContainers :: "Container list"
  p_Containers :: "Container list"
  p_Phase :: string
  p_InitContainerStatuses :: "ContainerStatus list"
  p_ContainerStatuses :: "ContainerStatus list"

definition PodPending :: string where "PodPending = ''Pending''"
definition PodRunning :: string where "PodRunning = ''Running''"
definition PodSucceeded :: string where "PodSucceeded = ''Succeeded''"
definition PodFailed :: string where "PodFailed = ''Failed''"

section \<open>FailedJob\<close>

text \<open>
  \<open>type FailedJob struct { Pod *core.Pod }\<close>. The pod is a pointer; \<open>None\<close> is nil, and
  the methods that dereference it panic there.
\<close>

record FailedJob =
  fj_Pod :: "Pod option"

datatype panic = NilPointerDereference | TypeAssertionFailed

text \<open>The loop of \<open>errorContainerNamesFromStatuses\<close>, appending to the result.\<close>

fun errorContainerNamesFromStatuses :: "ContainerStatus list \<Rightarrow> string list" where
  "errorContainerNamesFromStatuses [] = []"
| "errorContainerNamesFromStatuses (status # rest) =
     (case cs_Terminated status of
        None \<Rightarrow> errorContainerNamesFromStatuses rest
      | Some terminated \<Rightarrow>
          (if t_Reason terminated = ''Error''
           then cs_Name status # errorContainerNamesFromStatuses rest
           else errorContainerNamesFromStatuses rest))"

definition FailedContainerNames :: "FailedJob \<Rightarrow> panic + string list" where
  "FailedContainerNames j =
     (case fj_Pod j of
        None \<Rightarrow> Inl NilPointerDereference
      | Some pod \<Rightarrow>
          Inr (errorContainerNamesFromStatuses (p_InitContainerStatuses pod)
               @ errorContainerNamesFromStatuses (p_ContainerStatuses pod)))"

text \<open>
  The two loops of \<open>FailedContainers\<close> that fill \<open>nameToContainerMap\<close>: a later
  container of the same name overwrites an earlier one.
\<close>

fun fillNameToContainerMap ::
  "(string \<rightharpoonup> Container) \<Rightarrow> Container list \<Rightarrow> (string \<rightharpoonup> Container)" where
  "fillNameToContainerMap m [] = m"
| "fillNameToContainerMap m (container # rest) =
     fillNameToContainerMap (m(c_Name container \<mapsto> container)) rest"

definition nameToContainerMap :: "Pod \<Rightarrow> (string \<rightharpoonup> Container)" where
  "nameToContainerMap pod =
     fillNameToContainerMap (fillNameToContainerMap Map.empty (p_InitContainers pod))
       (p_Containers pod)"

text \<open>Indexing a Go map: a missing key gives the zero value.\<close>

definition mapIndex :: "(string \<rightharpoonup> Container) \<Rightarrow> string \<Rightarrow> Container" where
  "mapIndex m name = (case m name of None \<Rightarrow> zeroContainer | Some c \<Rightarrow> c)"

definition FailedContainers :: "FailedJob \<Rightarrow> panic + Container list" where
  "FailedContainers j =
     (case fj_Pod j of
        None \<Rightarrow> Inl NilPointerDereference
      | Some pod \<Rightarrow>
          (case FailedContainerNames j of
             Inl p \<Rightarrow> Inl p
           | Inr names \<Rightarrow> Inr (map (mapIndex (nameToContainerMap pod)) names)))"

definition FailedJob_Error :: "FailedJob \<Rightarrow> string" where
  "FailedJob_Error j = ''failed to job''"

text \<open>A status counts as failed when it is terminated with reason \<open>Error\<close>.\<close>

definition terminatedWithError :: "ContainerStatus \<Rightarrow> bool" where
  "terminatedWithError status =
     (case cs_Terminated status of None \<Rightarrow> False | Some t \<Rightarrow> t_Reason t = ''Error'')"

text \<open>
  A pod as the orchestrator reports it: container names are unique over init and regular
  containers together, and every status belongs to a container of the spec.
\<close>

definition specContainers :: "Pod \<Rightarrow> Container list" where
  "specContainers pod = p_InitContainers pod @ p_Containers pod"

definition podStatuses :: "Pod \<Rightarrow> ContainerStatus list" where
  "podStatuses pod = p_InitContainerStatuses pod @ p_ContainerStatuses pod"

definition wellFormedPod :: "Pod \<Rightarrow> bool" where
  "wellFormedPod pod =
     (distinct (map c_Name (specContainers pod))
      \<and> list_all (\<lambda>s. cs_Name s \<in> set (map c_Name (specContainers pod))) (podStatuses pod))"


section \<open>Errors and outcomes\<close>

text \<open>
  The error values job.go builds. \<open>ErrWrap msg err\<close> is
  \<open>xerrors.Errorf("msg: %w", err)\<close>, which keeps \<open>err\<close> in its chain;
  \<open>ErrPlain\<close> is an error that holds only its text; \<open>ErrExternal\<close> is an error
  returned by a library or by the cluster.
\<close>

datatype error =
    ErrFailedJob FailedJob
  | ErrContextCanceled
  | ErrExternal string
  | ErrPlain string
  | ErrWrap string error

fun Error_msg :: "error \<Rightarrow> string" where
  "Error_msg (ErrFailedJob j) = FailedJob_Error j"
| "Error_msg ErrContextCanceled = ''context canceled''"
| "Error_msg (ErrExternal msg) = msg"
| "Error_msg (ErrPlain msg) = msg"
| "Error_msg (ErrWrap msg err) = msg @ '': '' @ Error_msg err"

text \<open>\<open>errors.As(err, &failedJob)\<close>: walk the chain of wrapped errors.\<close>

fun errors_As_FailedJob :: "error \<Rightarrow> FailedJob option" where
  "errors_As_FailedJob (ErrFailedJob j) = Some j"
| "errors_As_FailedJob (ErrWrap msg err) = errors_As_FailedJob err"
| "errors_As_FailedJob _ = None"

text \<open>
  What a call that can wait on a channel does: it returns, it waits forever, or a
  goroutine panics.
\<close>

datatype 'a outcome = Returned 'a | Blocked | Panicked panic

fun Join :: "string list \<Rightarrow> string \<Rightarrow> string" where
  "Join [] sep = []"
| "Join [s] sep = s"
| "Join (s # t # rest) sep = s @ sep @ Join (t # rest) sep"

section \<open>JobBuilder\<close>

text \<open>
  \<open>batch.Job\<close>: the name, and of the pod template its labels (a Go map, kept as an
  association list with one entry per key; nil and the empty map are both \<open>[]\<close>), the
  restart policy and the containers.
\<close>

record JobSpec =
  j_Name :: string
  j_Labels :: "(string \<times> string) list"
  j_RestartPolicy :: string
  j_InitContainers :: "Container list"
  j_Containers :: "Container list"

definition RestartPolicyNever :: string where "RestartPolicyNever = ''Never''"

record JobBuilder =
  b_namespace :: string
  b_image :: string
  b_command :: "string list"

text \<open>
  What the builder takes from outside: whether \<open>kubernetes.NewForConfig\<close> fails for the
  builder's config, and the identifiers \<open>xid.New()\<close> returns, the n-th call giving
  \<open>be_xid n\<close>. The number of calls made so far is threaded through the builder's
  functions.
\<close>

record BuildEnv =
  be_NewForConfig :: "error option"
  be_xid :: "nat \<Rightarrow> string"

definition generateName :: "BuildEnv \<Rightarrow> string \<Rightarrow> nat \<Rightarrow> string \<times> nat" where
  "generateName env name n = (name @ ''-'' @ be_xid env n, Suc n)"

definition jobName :: "BuildEnv \<Rightarrow> nat \<Rightarrow> string \<times> nat" where
  "jobName env n = generateName env ''kubejob'' n"

definition containerName :: "BuildEnv \<Rightarrow> nat \<Rightarrow> string \<times> nat" where
  "containerName env n = generateName env ''kubejob-container'' n"

definition labelName :: "BuildEnv \<Rightarrow> nat \<Rightarrow> string \<times> nat" where
  "labelName env n = generateName env ''kubejob-label'' n"

text \<open>The \<open>Job\<close> struct: the job spec, the log switches and the callback.\<close>

record CallbackResult =
  cb_err :: "error option"
  cb_cancels :: bool

record Job =
  job_spec :: JobSpec
  disabledInitContainerLog :: bool
  disabledInitCommandLog :: bool
  disabledContainerLog :: bool
  disabledCommandLog :: bool
  podRunningCallback :: "(Pod \<Rightarrow> CallbackResult) option"

text \<open>The loop of \<open>BuildWithJob\<close> that names the containers without a name.\<close>

fun nameContainers :: "BuildEnv \<Rightarrow> Container list \<Rightarrow> nat \<Rightarrow> Container list \<times> nat" where
  "nameContainers env [] n = ([], n)"
| "nameContainers env (c # rest) n =
     (if c_Name c = []
      then (case containerName env n of
              (name, n') \<Rightarrow>
                (case nameContainers env rest n' of
                   (rest', n'') \<Rightarrow> (c\<lparr>c_Name := name\<rparr> # rest', n'')))
      else (case nameContainers env rest n of
              (rest', n') \<Rightarrow> (c # rest', n')))"

definition BuildWithJob :: "JobBuilder \<Rightarrow> BuildEnv \<Rightarrow> JobSpec \<Rightarrow> nat \<Rightarrow> (error + Job) \<times> nat" where
  "BuildWithJob b env jobSpec n =
     (case be_NewForConfig env of
        Some err \<Rightarrow> (Inl (ErrWrap ''failed to create clientset'' err), n)
      | None \<Rightarrow>
          (case (if j_Name jobSpec = [] then jobName env n else (j_Name jobSpec, n)) of
             (name, n1) \<Rightarrow>
               (case nameContainers env (j_Containers jobSpec) n1 of
                  (containers, n2) \<Rightarrow>
                    (case labelName env n2 of
                       (label, n3) \<Rightarrow>
                         (Inr \<lparr>job_spec = jobSpec
                                 \<lparr>j_Name := name,
                                  j_RestartPolicy :=
                                    (if j_RestartPolicy jobSpec = [] then RestartPolicyNever
                                     else j_RestartPolicy jobSpec),
                                  j_Containers := containers,
                                  j_Labels := AList.update label label (j_Labels jobSpec)\<rparr>,
                               disabledInitContainerLog = False,
                               disabledInitCommandLog = False,
                               disabledContainerLog = False,
                               disabledCommandLog = False,
                               podRunningCallback = None\<rparr>, n3)))))"

definition Build :: "JobBuilder \<Rightarrow> BuildEnv \<Rightarrow> nat \<Rightarrow> (error + Job) \<times> nat" where
  "Build b env n =
     (if b_image b = [] then (Inl (ErrPlain ''could not find container.image name''), n)
      else (case jobName env n of
              (name, n1) \<Rightarrow>
                (case containerName env n1 of
                   (cname, n2) \<Rightarrow>
                     BuildWithJob b env
                       \<lparr>j_Name = name,
                        j_Labels = [],
                        j_RestartPolicy = RestartPolicyNever,
                        j_InitContainers = [],
                        j_Containers =
                          [\<lparr>c_Name = cname, c_Image = b_image b,
                            c_Command = b_command b, c_Args = []\<rparr>]\<rparr>
                       n2)))"

text \<open>
  \<open>BuildWithReader\<close>: the YAML or JSON decoder is outside this file; its result for the
  reader's contents is the argument \<open>decoded\<close>.
\<close>

definition BuildWithReader ::
  "JobBuilder \<Rightarrow> BuildEnv \<Rightarrow> error + JobSpec \<Rightarrow> nat \<Rightarrow> (error + Job) \<times> nat" where
  "BuildWithReader b env decoded n =
     (case decoded of
        Inl err \<Rightarrow> (Inl (ErrWrap ''failed to decode YAML'' err), n)
      | Inr jobSpec \<Rightarrow> BuildWithJob b env jobSpec n)"

text \<open>
  \<open>labelSelector\<close>: the keys of the template's labels, sorted as \<open>sort.Strings\<close> does
  (bytewise), each written \<open>key=value\<close>, joined by commas.
\<close>

definition labelValue :: "(string \<times> string) list \<Rightarrow> string \<Rightarrow> string" where
  "labelValue labels k = (case map_of labels k of None \<Rightarrow> [] | Some v \<Rightarrow> v)"

definition selectorTerms :: "JobSpec \<Rightarrow> string list" where
  "selectorTerms js =
     map (\<lambda>k. k @ ''='' @ labelValue (j_Labels js) k) (sort (map fst (j_Labels js)))"

definition labelSelector :: "JobSpec \<Rightarrow> string" where
  "labelSelector js = Join (selectorTerms js) '',''"

section \<open>JobExecutor\<close>

record JobExecutor =
  e_Container :: Container
  e_pod :: "Pod option"
  e_command :: "string list"
  e_args :: "string list"
  e_disabledContainerLog :: bool
  e_disabledCommandLog :: bool
  e_protocols :: "string list"

definition StreamProtocolV4Name :: string where "StreamProtocolV4Name = ''v4.channel.k8s.io''"
definition StreamProtocolV3Name :: string where "StreamProtocolV3Name = ''v3.channel.k8s.io''"
definition StreamProtocolV2Name :: string where "StreamProtocolV2Name = ''v2.channel.k8s.io''"
definition StreamProtocolV1Name :: string where "StreamProtocolV1Name = ''channel.k8s.io''"

text \<open>
  The exec request sent to the pod's \<open>exec\<close> subresource, and what the cluster does with
  it: building the HTTP request may fail, the negotiation gives an error or the protocol
  the server names, and then the command's standard output and standard error arrive
  and the stream ends with or without an error (a command that exits with a status
  other than zero ends the stream with an error).
\<close>

record ExecRequest =
  rq_Namespace :: string
  rq_PodName :: string
  rq_Container :: string
  rq_Command :: "string list"

record ExecResponse =
  r_requestErr :: "string option"
  r_negotiate :: "error + string"
  r_stdout :: string
  r_stderr :: string
  r_streamErr :: "error option"

text \<open>
  The calling process: what it has written on \<open>os.Stdout\<close> and \<open>os.Stderr\<close>, what it
  has printed through the \<open>log\<close> package, and the exec requests it has sent. A line with
  an elapsed time (\<open>fmt.Println("exec time = ", ...)\<close>) is kept as \<open>OutElapsed\<close> with its
  label, the number of seconds left out. The cluster answers a request knowing the
  requests before it.
\<close>

datatype printed = OutText string | OutElapsed string

record Process =
  w_stdout :: "printed list"
  w_stderr :: "printed list"
  w_log :: "string list"
  w_requests :: "ExecRequest list"

type_synonym remote = "ExecRequest list \<Rightarrow> ExecRequest \<Rightarrow> ExecResponse"

definition Println :: "printed \<Rightarrow> Process \<Rightarrow> Process" where
  "Println x w = w\<lparr>w_stdout := w_stdout w @ [x]\<rparr>"

text \<open>The type \<open>buffer\<close>: a byte buffer with \<open>Write\<close> and \<open>Bytes\<close>.\<close>

type_synonym buffer = string

definition newBuffer :: buffer where
  "newBuffer = []"

definition buffer_Write :: "buffer \<Rightarrow> string \<Rightarrow> buffer" where
  "buffer_Write b p = b @ p"

definition buffer_Bytes :: "buffer \<Rightarrow> string" where
  "buffer_Bytes b = b"

text \<open>
  \<open>stream\<close>: the sinks of the stream options are the arguments \<open>out\<close> and \<open>err\<close>, which
  say where the bytes of the command go. A protocol that no case of the switch names
  leaves \<open>streamer\<close> nil, and the call through it panics.
\<close>

definition stream ::
  "ExecResponse \<Rightarrow> (string \<Rightarrow> Process \<Rightarrow> Process) \<Rightarrow> (string \<Rightarrow> Process \<Rightarrow> Process) \<Rightarrow> Process
   \<Rightarrow> panic + (error option \<times> Process)" where
  "stream resp out err w =
     (case r_requestErr resp of
        Some msg \<Rightarrow> Inr (Some (ErrPlain (''error creating request: '' @ msg)), w)
      | None \<Rightarrow>
          (case r_negotiate resp of
             Inl e \<Rightarrow> Inr (Some e, w)
           | Inr protocol \<Rightarrow>
               (let w1 = Println (OutElapsed ''negotiate time = '') w in
                if protocol \<in> set [StreamProtocolV4Name, StreamProtocolV3Name,
                                     StreamProtocolV2Name, [], StreamProtocolV1Name]
                then Inr (r_streamErr resp,
                          Println (OutElapsed ''stream time = '')
                            (err (r_stderr resp) (out (r_stdout resp) w1)))
                else Inl NilPointerDereference)))"

definition toStdout :: "string \<Rightarrow> Process \<Rightarrow> Process" where
  "toStdout bytes w = (if bytes = [] then w else w\<lparr>w_stdout := w_stdout w @ [OutText bytes]\<rparr>)"

definition toStderr :: "string \<Rightarrow> Process \<Rightarrow> Process" where
  "toStderr bytes w = (if bytes = [] then w else w\<lparr>w_stderr := w_stderr w @ [OutText bytes]\<rparr>)"

text \<open>
  \<open>exec\<close>: the request runs \<open>sh -c\<close> on the joined command; the stream's sinks are
  \<open>os.Stdout\<close> and \<open>os.Stderr\<close>; the bytes returned are those of \<open>buf\<close>, the buffer made
  in the function.
\<close>

definition exec ::
  "remote \<Rightarrow> JobExecutor \<Rightarrow> string list \<Rightarrow> Process \<Rightarrow> panic + (string \<times> error option \<times> Process)" where
  "exec cluster e cmd w =
     (case e_pod e of
        None \<Rightarrow> Inl NilPointerDereference
      | Some pod \<Rightarrow>
          (let req = \<lparr>rq_Namespace = p_Namespace pod, rq_PodName = p_Name pod,
                      rq_Container = c_Name (e_Container e),
                      rq_Command = [''sh'', ''-c'', Join cmd '' '']\<rparr>;
               resp = cluster (w_requests w) req;
               buf = newBuffer;
               w1 = w\<lparr>w_requests := w_requests w @ [req]\<rparr>
           in case stream resp toStdout toStderr w1 of
                Inl p \<Rightarrow> Inl p
              | Inr (Some err, w2) \<Rightarrow>
                  Inr (buffer_Bytes buf, Some (ErrWrap ''faield to exec command'' err),
                       Println (OutElapsed ''exec time = '') w2)
              | Inr (None, w2) \<Rightarrow>
                  Inr (buffer_Bytes buf, None, Println (OutElapsed ''exec time = '') w2)))"

text \<open>\<open>fmt.Sprint\<close> of the status, a Go int that is never negative here.\<close>

fun Sprint :: "nat \<Rightarrow> string" where
  "Sprint n =
     (if n < 10 then [''0123456789'' ! n]
      else Sprint (n div 10) @ [''0123456789'' ! (n mod 10)])"

definition statusCommand :: "nat \<Rightarrow> string list" where
  "statusCommand status = [''echo'', Sprint status, ''>'', ''/tmp/kubejob-status'']"

definition Exec ::
  "remote \<Rightarrow> JobExecutor \<Rightarrow> Process \<Rightarrow> panic + (string \<times> error option \<times> Process)" where
  "Exec cluster e w =
     (let w1 = (if \<not> e_disabledCommandLog e
                then Println (OutText (Join (e_command e @ e_args e) '' '' @ ''\<newline>'')) w
                else w)
      in case exec cluster e (e_command e @ e_args e) w1 of
           Inl p \<Rightarrow> Inl p
         | Inr (out, err, w2) \<Rightarrow>
             (let w3 = Println (OutElapsed ''command time = '') w2;
                  status = (if err \<noteq> None then 1 else 0);
                  errTest = (if err \<noteq> None then Some (ErrFailedJob \<lparr>fj_Pod = e_pod e\<rparr>)
                             else None)
              in case exec cluster e (statusCommand status) w3 of
                   Inl p \<Rightarrow> Inl p
                 | Inr (out2, err2, w4) \<Rightarrow>
                     (let w5 = (case err2 of
                                  None \<Rightarrow> w4
                                | Some e2 \<Rightarrow>
                                    w4\<lparr>w_log := w_log w4
                                         @ [''failed to send test status: '' @ Error_msg e2]\<rparr>)
                      in Inr (out, errTest,
                              Println (OutElapsed ''send test status time = '') w5))))"

section \<open>Log streaming\<close>

record ContainerLog =
  cl_Pod :: Pod
  cl_Container :: Container
  cl_Log :: string
  cl_IsFinished :: bool

text \<open>
  What \<open>reader.ReadString('\n')\<close> returns: a whole line with no error, the bytes read so
  far with \<open>io.EOF\<close>, or another error. A container's log stream is whether opening it
  fails, the results of the successive reads (after the last one the read waits for
  ever, the container being alive and silent), and which case of the \<open>select\<close> is taken
  when both are ready.
\<close>

datatype read_result = ReadLine string | ReadEOF string | ReadError error

record LogStream =
  ls_openErr :: "error option"
  ls_reads :: "read_result list"
  ls_ctxFirst :: bool

definition commandLog :: "Pod \<Rightarrow> Container \<Rightarrow> ContainerLog" where
  "commandLog pod container =
     \<lparr>cl_Pod = pod, cl_Container = container,
      cl_Log = Join (c_Command container @ c_Args container) '' '' @ ''\<newline>'',
      cl_IsFinished = False\<rparr>"

definition enabledInitCommandLog :: "Job \<Rightarrow> bool" where
  "enabledInitCommandLog j =
     (if disabledInitContainerLog j then False
      else if disabledInitCommandLog j then False
      else True)"

definition enabledCommandLog :: "Job \<Rightarrow> bool" where
  "enabledCommandLog j =
     (if disabledContainerLog j then False
      else if disabledCommandLog j then False
      else True)"

text \<open>
  The goroutine of \<open>logStreamContainer\<close>: the events it sends on \<open>j.containerLogs\<close>. The
  channel is read by the goroutine that \<open>Run\<close> starts, which never stops, so a send on
  it completes. \<open>errchan\<close> holds one value; \<open>sends\<close> is the number of sends on it that
  can still complete (one, and one more when the \<open>select\<close> receives from it). The loop
  has no exit: after a send that completes it reads again, and it stops only at a
  send or a read that waits for ever.
\<close>

fun readerLoop :: "bool \<Rightarrow> Pod \<Rightarrow> Container \<Rightarrow> read_result list \<Rightarrow> nat \<Rightarrow> ContainerLog list" where
  "readerLoop enabledLog pod container [] sends = []"
| "readerLoop enabledLog pod container (ReadLine line # reads) sends =
     (if enabledLog
      then \<lparr>cl_Pod = pod, cl_Container = container, cl_Log = line, cl_IsFinished = False\<rparr>
           # readerLoop enabledLog pod container reads sends
      else readerLoop enabledLog pod container reads sends)"
| "readerLoop enabledLog pod container (ReadError err # reads) sends =
     (case sends of
        0 \<Rightarrow> []
      | Suc k \<Rightarrow> readerLoop enabledLog pod container reads k)"
| "readerLoop enabledLog pod container (ReadEOF line # reads) sends =
     \<lparr>cl_Pod = pod, cl_Container = container, cl_Log = [], cl_IsFinished = True\<rparr>
     # (case sends of
          0 \<Rightarrow> []
        | Suc k \<Rightarrow> readerLoop enabledLog pod container reads k)"

text \<open>The first value the goroutine sends on \<open>errchan\<close>, if it sends any.\<close>

fun firstSent :: "read_result list \<Rightarrow> error option option" where
  "firstSent [] = None"
| "firstSent (ReadLine line # reads) = firstSent reads"
| "firstSent (ReadError err # reads) = Some (Some err)"
| "firstSent (ReadEOF line # reads) = Some None"

datatype selected = SelectCtxDone | SelectErrchan "error option" | SelectNone

definition selectCase :: "bool \<Rightarrow> bool \<Rightarrow> error option option \<Rightarrow> selected" where
  "selectCase ctxDone ctxFirst sent =
     (case sent of
        None \<Rightarrow> (if ctxDone then SelectCtxDone else SelectNone)
      | Some v \<Rightarrow> (if ctxDone \<and> ctxFirst then SelectCtxDone else SelectErrchan v))"

text \<open>
  \<open>logStreamContainer\<close>: its result and the events sent for the container. \<open>ctxDone\<close>
  says whether the context is cancelled at some time of the run.
\<close>

definition logStreamContainer ::
  "LogStream \<Rightarrow> bool \<Rightarrow> Pod \<Rightarrow> Container \<Rightarrow> bool \<Rightarrow> bool
   \<Rightarrow> error option outcome \<times> ContainerLog list" where
  "logStreamContainer ls ctxDone pod container enabledCommandLog' enabledLog =
     (case ls_openErr ls of
        Some err \<Rightarrow> (Returned (Some (ErrWrap ''failed to create log stream'' err)), [])
      | None \<Rightarrow>
          (let cmd = (if enabledCommandLog' then [commandLog pod container] else []);
               sel = selectCase ctxDone (ls_ctxFirst ls) (firstSent (ls_reads ls));
               sends = (case sel of SelectErrchan v \<Rightarrow> 2 | _ \<Rightarrow> 1);
               events = cmd @ readerLoop enabledLog pod container (ls_reads ls) sends
           in (case sel of
                 SelectNone \<Rightarrow> Blocked
               | SelectCtxDone \<Rightarrow> Returned (Some (ErrWrap ''context error'' ErrContextCanceled))
               | SelectErrchan None \<Rightarrow> Returned None
               | SelectErrchan (Some err) \<Rightarrow> Returned (Some (ErrWrap ''failed to log stream'' err)),
               events)))"

text \<open>
  \<open>errgroup.Group.Wait\<close>: it returns when every goroutine has returned, with the first
  error that one of them returned. Which error is first depends on the timing; \<open>pick\<close>
  chooses it. A panic in a goroutine ends the process.
\<close>

fun panicsOf :: "'a outcome list \<Rightarrow> panic list" where
  "panicsOf [] = []"
| "panicsOf (Panicked p # rs) = p # panicsOf rs"
| "panicsOf (r # rs) = panicsOf rs"

fun errorsOf :: "error option outcome list \<Rightarrow> error list" where
  "errorsOf [] = []"
| "errorsOf (Returned (Some err) # rs) = err # errorsOf rs"
| "errorsOf (r # rs) = errorsOf rs"

definition errgroup_Wait :: "nat \<Rightarrow> error option outcome list \<Rightarrow> error option outcome" where
  "errgroup_Wait pick rs =
     (case panicsOf rs of
        p # ps \<Rightarrow> Panicked p
      | [] \<Rightarrow>
          (if Blocked \<in> set rs then Blocked
           else (case errorsOf rs of
                   [] \<Rightarrow> Returned None
                 | err # errs \<Rightarrow> Returned (Some ((err # errs) ! (pick mod length (err # errs)))))))"

definition wrapOutcome :: "string \<Rightarrow> error option outcome \<Rightarrow> error option outcome" where
  "wrapOutcome msg r =
     (case r of Returned (Some err) \<Rightarrow> Returned (Some (ErrWrap msg err)) | x \<Rightarrow> x)"

text \<open>
  \<open>logStreamPod\<close>: the init containers one after the other, stopping at the first error;
  then the containers, each in a goroutine of a group.
\<close>

fun logStreamInitContainers ::
  "Job \<Rightarrow> (string \<Rightarrow> LogStream) \<Rightarrow> bool \<Rightarrow> Pod \<Rightarrow> Container list
   \<Rightarrow> error option outcome \<times> ContainerLog list list" where
  "logStreamInitContainers j logs ctxDone pod [] = (Returned None, [])"
| "logStreamInitContainers j logs ctxDone pod (container # rest) =
     (case logStreamContainer (logs (c_Name container)) ctxDone pod container
             (enabledInitCommandLog j) (\<not> disabledInitContainerLog j) of
        (Returned None, events) \<Rightarrow>
          (case logStreamInitContainers j logs ctxDone pod rest of
             (r, eventss) \<Rightarrow> (r, events # eventss))
      | (r, events) \<Rightarrow> (wrapOutcome ''failed to log stream container'' r, [events]))"

definition logStreamPod ::
  "Job \<Rightarrow> (string \<Rightarrow> LogStream) \<Rightarrow> nat \<Rightarrow> bool \<Rightarrow> Pod
   \<Rightarrow> error option outcome \<times> ContainerLog list list" where
  "logStreamPod j logs pick ctxDone pod =
     (case logStreamInitContainers j logs ctxDone pod (p_InitContainers pod) of
        (Returned None, initEvents) \<Rightarrow>
          (let rs = map (\<lambda>container.
                      logStreamContainer (logs (c_Name container)) ctxDone pod container
                        (enabledCommandLog j) (\<not> disabledContainerLog j))
                      (p_Containers pod)
           in (wrapOutcome ''failed to wait''
                 (errgroup_Wait pick
                    (map (\<lambda>r. wrapOutcome ''failed to log stream container'' (fst r)) rs)),
               initEvents @ map snd rs))
      | (r, initEvents) \<Rightarrow> (r, initEvents))"

section \<open>The watch loop\<close>

text \<open>
  What happens while the loop watches, in order: the watch channel delivers an event,
  whose object is a pod or something else (\<open>None\<close>), or the caller cancels the context.
\<close>

datatype watch_item = WatchEvent "Pod option" | CtxCancel

text \<open>
  The variables of the watching goroutine: the last phase seen, whether \<open>once\<close> has
  run, whether the context is cancelled; and, to speak about them, the pods the
  callback was called with, the pods of the events at which log streaming was
  started, and the pods assigned to the variable \<open>pod\<close> after that start. The variable
  is shared with the goroutine that streams the logs, which reads it when it runs.
\<close>

record WatchState =
  ws_phase :: string
  ws_onceDone :: bool
  ws_ctxDone :: bool
  ws_callbacks :: "Pod list"
  ws_logStreams :: "Pod list"
  ws_later :: "Pod list"

definition initWatchState :: WatchState where
  "initWatchState =
     \<lparr>ws_phase = [], ws_onceDone = False, ws_ctxDone = False,
      ws_callbacks = [], ws_logStreams = [], ws_later = []\<rparr>"

text \<open>
  The assignment \<open>pod = event.Object.(*core.Pod)\<close> at the head of the loop body, kept
  once log streaming has been started.
\<close>

definition assigned :: "Pod \<Rightarrow> WatchState \<Rightarrow> WatchState" where
  "assigned pod s = (if ws_onceDone s then s\<lparr>ws_later := ws_later s @ [pod]\<rparr> else s)"

text \<open>
  The goroutine that ranges over the watch channel. When the events are used up the
  channel is closed (\<open>closes\<close>) or stays open and silent.
\<close>

fun watchEvents ::
  "(Pod \<Rightarrow> CallbackResult) option \<Rightarrow> bool \<Rightarrow> watch_item list \<Rightarrow> WatchState
   \<Rightarrow> error option outcome \<times> WatchState" where
  "watchEvents callback closes [] s = (if closes then Returned None else Blocked, s)"
| "watchEvents callback closes (CtxCancel # items) s =
     watchEvents callback closes items (s\<lparr>ws_ctxDone := True\<rparr>)"
| "watchEvents callback closes (WatchEvent None # items) s = (Panicked TypeAssertionFailed, s)"
| "watchEvents callback closes (WatchEvent (Some pod) # items) s =
     (if ws_ctxDone s
      then (Returned (Some (ErrWrap ''context error'' ErrContextCanceled)), assigned pod s)
      else if p_Phase pod = ws_phase s then watchEvents callback closes items (assigned pod s)
      else if p_Phase pod = PodRunning then
        (if ws_onceDone s
         then watchEvents callback closes items ((assigned pod s)\<lparr>ws_phase := p_Phase pod\<rparr>)
         else
           (case callback of
              None \<Rightarrow>
                watchEvents callback closes items
                  (s\<lparr>ws_onceDone := True, ws_logStreams := ws_logStreams s @ [pod],
                     ws_phase := p_Phase pod\<rparr>)
            | Some f \<Rightarrow>
                (let s' = s\<lparr>ws_onceDone := True,
                             ws_ctxDone := cb_cancels (f pod),
                             ws_callbacks := ws_callbacks s @ [pod],
                             ws_logStreams := ws_logStreams s @ [pod]\<rparr>
                 in case cb_err (f pod) of
                      Some callbackErr \<Rightarrow>
                        (Returned (Some (ErrWrap ''failed to callback for pod running''
                                           callbackErr)), s')
                    | None \<Rightarrow> watchEvents callback closes items (s'\<lparr>ws_phase := p_Phase pod\<rparr>))))
      else if p_Phase pod = PodSucceeded \<or> p_Phase pod = PodFailed then
        (let s' = (if ws_onceDone s then assigned pod s
                   else s\<lparr>ws_onceDone := True, ws_logStreams := ws_logStreams s @ [pod]\<rparr>)
         in if p_Phase pod = PodFailed
            then (Returned (Some (ErrFailedJob \<lparr>fj_Pod = Some pod\<rparr>)), s')
            else (Returned None, s'))
      else watchEvents callback closes items ((assigned pod s)\<lparr>ws_phase := p_Phase pod\<rparr>))"

text \<open>
  \<open>watchLoop\<close>: the group holds the watching goroutine and the goroutines that stream
  the logs. The context counts as cancelled for the log streams when the callback or
  the caller cancels it at any time. The goroutine that streams the logs gets the
  pod that the variable \<open>pod\<close> holds when it reads it: the pod of the event that
  started it, or of one of the events the loop has taken since; \<open>k_streamLag\<close> is the
  number of those events taken before the read.

  What a run takes from outside is a \<open>Cluster\<close>. Besides the answers of the cluster
  it holds the choices of the scheduler (\<open>k_pick\<close>, \<open>k_streamLag\<close>, and \<open>k_dying\<close>,
  the number of calls the cleanup still makes when a panic in another goroutine is
  ending the process) and \<open>k_Sprintf\<close>, what \<open>fmt\<close> makes of a format string given
  no arguments (the string itself when it has no \<open>%\<close>).
\<close>

record Cluster =
  k_roundTripperErr :: "error option"
  k_createErr :: "error option"
  k_watchErr :: "error option"
  k_watch :: "watch_item list"
  k_watchCloses :: bool
  k_logs :: "string \<Rightarrow> LogStream"
  k_deleteJobErr :: "error option"
  k_podList :: "Pod list option"
  k_deletePodErr :: "string \<Rightarrow> error option"
  k_pick :: nat
  k_streamLag :: nat
  k_dying :: nat
  k_Sprintf :: "string \<Rightarrow> string"

text \<open>
  \<open>wr_released\<close> says whether \<open>eg.Wait\<close> stops waiting: every goroutine of the group
  has returned or has panicked (a panic runs the deferred \<open>Done\<close> of the group).
\<close>

record WatchResult =
  wr_outcome :: "error option outcome"
  wr_released :: bool
  wr_callbacks :: "Pod list"
  wr_logStreams :: "Pod list"
  wr_logs :: "ContainerLog list list"

definition podRead :: "nat \<Rightarrow> Pod \<Rightarrow> Pod list \<Rightarrow> Pod" where
  "podRead lag started later = (started # later) ! min lag (length later)"

definition watchLoop :: "Cluster \<Rightarrow> Job \<Rightarrow> WatchResult" where
  "watchLoop k j =
     (case watchEvents (podRunningCallback j) (k_watchCloses k) (k_watch k) initWatchState of
        (r, s) \<Rightarrow>
          (let ctxDone = (ws_ctxDone s \<or> CtxCancel \<in> set (k_watch k));
               streams = map (\<lambda>started.
                                logStreamPod j (k_logs k) (k_pick k) ctxDone
                                  (podRead (k_streamLag k) started (ws_later s)))
                           (ws_logStreams s);
               rs = r # map (\<lambda>x. wrapOutcome ''failed to log stream pod'' (fst x)) streams
           in \<lparr>wr_outcome =
                 wrapOutcome ''failed to wait in watchLoop'' (errgroup_Wait (k_pick k) rs),
               wr_released = (Blocked \<notin> set rs),
               wr_callbacks = ws_callbacks s,
               wr_logStreams = ws_logStreams s,
               wr_logs = concat (map snd streams)\<rparr>))"

section \<open>Run\<close>

datatype api_call =
    CreateJob JobSpec
  | WatchPods string
  | DeleteJob string
  | ListPods string
  | DeletePod string

record RunResult =
  rr_outcome :: "error option outcome"
  rr_calls :: "api_call list"
  rr_callbacks :: "Pod list"
  rr_logStreams :: "Pod list"
  rr_logs :: "ContainerLog list list"

definition wait :: "Cluster \<Rightarrow> Job \<Rightarrow> WatchResult" where
  "wait k j =
     (case k_watchErr k of
        Some err \<Rightarrow>
          \<lparr>wr_outcome = Returned (Some (ErrWrap ''failed to start watch pod'' err)),
           wr_released = True, wr_callbacks = [], wr_logStreams = [], wr_logs = []\<rparr>
      | None \<Rightarrow>
          (let r = watchLoop k j
           in r\<lparr>wr_outcome := wrapOutcome ''failed to watching'' (wr_outcome r)\<rparr>))"

text \<open>
  The deferred function of \<open>Run\<close>, with \<open>e\<close> the error \<open>Run\<close> is returning: the error it
  leaves in \<open>e\<close> and the calls it makes. The error of \<open>List\<close> is dropped; \<open>k_podList\<close> is
  the list it returns, \<open>None\<close> for nil. When a pod delete fails and \<open>e\<close> holds an
  error, the two messages joined by a newline are the format string of
  \<open>xerrors.Errorf\<close>, which is given no arguments.
\<close>

fun deletePods :: "Cluster \<Rightarrow> Pod list \<Rightarrow> error option \<Rightarrow> error option \<times> api_call list" where
  "deletePods k [] e = (e, [])"
| "deletePods k (pod # pods) e =
     (let e' = (case k_deletePodErr k (p_Name pod) of
                  None \<Rightarrow> e
                | Some d \<Rightarrow>
                    (let err = ErrWrap ''failed to delete pod'' d
                     in case e of
                          None \<Rightarrow> Some err
                        | Some e0 \<Rightarrow>
                            Some (ErrPlain
                                    (k_Sprintf k
                                       (Join [Error_msg e0, Error_msg err] ''\<newline>'')))))
      in case deletePods k pods e' of
           (r, calls) \<Rightarrow> (r, DeletePod (p_Name pod) # calls))"

definition cleanup :: "Cluster \<Rightarrow> Job \<Rightarrow> error option \<Rightarrow> error option \<times> api_call list" where
  "cleanup k j e =
     (let e1 = (case k_deleteJobErr k of
                  Some d \<Rightarrow> Some (ErrWrap ''failed to delete job'' d)
                | None \<Rightarrow> e);
          calls = [DeleteJob (j_Name (job_spec j)), ListPods (labelSelector (job_spec j))]
      in case k_podList k of
           None \<Rightarrow> (e1, calls)
         | Some pods \<Rightarrow>
             (case deletePods k pods e1 of (r, dels) \<Rightarrow> (r, calls @ dels)))"

text \<open>
  \<open>Run\<close>. When \<open>wait\<close> returns, the deferred cleanup runs and its error is the result.
  When the watching goroutine panics the process ends; if by then every other
  goroutine of the group has returned, \<open>eg.Wait\<close> is released by the panic and \<open>Run\<close>
  goes on into its cleanup until the process is gone, making the first \<open>k_dying\<close> of
  the cleanup's calls (which calls the cleanup makes does not depend on the error it
  is given).
\<close>

definition Run :: "Cluster \<Rightarrow> Job \<Rightarrow> RunResult" where
  "Run k j =
     (case k_createErr k of
        Some err \<Rightarrow>
          \<lparr>rr_outcome = Returned (Some (ErrWrap ''failed to create job'' err)),
           rr_calls = [CreateJob (job_spec j)],
           rr_callbacks = [], rr_logStreams = [], rr_logs = []\<rparr>
      | None \<Rightarrow>
          (let r = wait k j;
               calls = [CreateJob (job_spec j), WatchPods (labelSelector (job_spec j))]
           in case wrapOutcome ''failed to wait'' (wr_outcome r) of
                Returned e \<Rightarrow>
                  (case cleanup k j e of
                     (e', dels) \<Rightarrow>
                       \<lparr>rr_outcome = Returned e', rr_calls = calls @ dels,
                        rr_callbacks = wr_callbacks r, rr_logStreams = wr_logStreams r,
                        rr_logs = wr_logs r\<rparr>)
              | Blocked \<Rightarrow>
                  \<lparr>rr_outcome = Blocked, rr_calls = calls,
                   rr_callbacks = wr_callbacks r, rr_logStreams = wr_logStreams r,
                   rr_logs = wr_logs r\<rparr>
              | Panicked p \<Rightarrow>
                  \<lparr>rr_outcome = Panicked p,
                   rr_calls =
                     calls @ (if wr_released r then take (k_dying k) (snd (cleanup k j None))
                              else []),
                   rr_callbacks = wr_callbacks r, rr_logStreams = wr_logStreams r,
                   rr_logs = wr_logs r\<rparr>))"

section \<open>RunWithExecutionHandler\<close>

definition jobCommandTemplate :: string where
  "jobCommandTemplate =
     ''\<newline>while [ ! -f /tmp/kubejob-status ]\<newline>do\<newline>    sleep 1;\<newline>done\<newline>\<newline>exit $(cat /tmp/kubejob-status)\<newline>''"

text \<open>
  The loop of \<open>RunWithExecutionHandler\<close> over the containers: the executor of each
  container, made from the container as it is, and the container with its command and
  arguments overwritten.
\<close>

fun wrapContainers :: "Job \<Rightarrow> Container list \<Rightarrow> JobExecutor list \<times> Container list" where
  "wrapContainers j [] = ([], [])"
| "wrapContainers j (container # rest) =
     (case wrapContainers j rest of
        (executors, rest') \<Rightarrow>
          (\<lparr>e_Container = container, e_pod = None,
            e_command = c_Command container, e_args = c_Args container,
            e_disabledContainerLog = disabledContainerLog j,
            e_disabledCommandLog = disabledCommandLog j,
            e_protocols = [StreamProtocolV4Name, StreamProtocolV3Name,
                           StreamProtocolV2Name, StreamProtocolV1Name]\<rparr> # executors,
           container\<lparr>c_Command := [''sh''], c_Args := [''-c'', jobCommandTemplate]\<rparr> # rest'))"

text \<open>
  The handler is the caller's code: given the executors it returns an error or nil,
  and it may cancel the context of the run.
\<close>

definition executionCallback ::
  "JobExecutor list \<Rightarrow> (JobExecutor list \<Rightarrow> CallbackResult) \<Rightarrow> Pod \<Rightarrow> CallbackResult" where
  "executionCallback executors handler pod =
     (let r = handler (map (\<lambda>exec. exec\<lparr>e_pod := Some pod\<rparr>) executors)
      in \<lparr>cb_err = map_option (ErrWrap ''failed to handle executors'') (cb_err r),
          cb_cancels = cb_cancels r\<rparr>)"

text \<open>The job as \<open>RunWithExecutionHandler\<close> has changed it when it calls \<open>Run\<close>.\<close>

definition withExecutionHandler :: "Job \<Rightarrow> (JobExecutor list \<Rightarrow> CallbackResult) \<Rightarrow> Job" where
  "withExecutionHandler j handler =
     (case wrapContainers j (j_Containers (job_spec j)) of
        (executors, containers) \<Rightarrow>
          j\<lparr>job_spec := (job_spec j)\<lparr>j_Containers := containers\<rparr>,
            disabledCommandLog := True,
            podRunningCallback := Some (executionCallback executors handler)\<rparr>)"

definition RunWithExecutionHandler ::
  "Cluster \<Rightarrow> Job \<Rightarrow> (JobExecutor list \<Rightarrow> CallbackResult) \<Rightarrow> RunResult" where
  "RunWithExecutionHandler k j handler =
     (case k_roundTripperErr k of
        Some err \<Rightarrow>
          \<lparr>rr_outcome = Returned (Some (ErrWrap ''failed to RoundTripperFor'' err)),
           rr_calls = [], rr_callbacks = [], rr_logStreams = [], rr_logs = []\<rparr>
      | None \<Rightarrow>
          (let r = Run k (withExecutionHandler j handler)
           in r\<lparr>rr_outcome := wrapOutcome ''failed to run job'' (rr_outcome r)\<rparr>))"

section \<open>Example values\<close>

definition exInit :: Container where
  "exInit = \<lparr>c_Name = ''init'', c_Image = ''golang:1.17-stretch'',
              c_Command = [''true''], c_Args = []\<rparr>"

definition exTest :: Container where
  "exTest = \<lparr>c_Name = ''test'', c_Image = ''golang:1.17-stretch'',
              c_Command = [''cat'', ''missingfile''], c_Args = []\<rparr>"

definition exSidecar :: Container where
  "exSidecar = \<lparr>c_Name = ''sidecar'', c_Image = ''nginx:latest'',
                 c_Command = [''nginx''], c_Args = []\<rparr>"

definition exFailedPod :: Pod where
  "exFailedPod =
     \<lparr>p_Name = ''kubejob-x'', p_Namespace = ''default'',
      p_InitContainers = [exInit], p_Containers = [exTest, exSidecar],
      p_Phase = ''Failed'',
      p_InitContainerStatuses =
        [\<lparr>cs_Name = ''init'',
          cs_Terminated = Some \<lparr>t_ExitCode = 0, t_Reason = ''Completed''\<rparr>\<rparr>],
      p_ContainerStatuses =
        [\<lparr>cs_Name = ''test'',
          cs_Terminated = Some \<lparr>t_ExitCode = 1, t_Reason = ''Error''\<rparr>\<rparr>,
         \<lparr>cs_Name = ''sidecar'', cs_Terminated = None\<rparr>]\<rparr>"

text \<open>
  To state what \<open>Exec\<close> sends: the request \<open>exec\<close> builds for a command, the request
  for the executor's own command, whether the server names a protocol that the switch
  of \<open>stream\<close> knows, and the error \<open>stream\<close> returns for a response.
\<close>

definition execRequest :: "Pod \<Rightarrow> JobExecutor \<Rightarrow> string list \<Rightarrow> ExecRequest" where
  "execRequest pod e cmd =
     \<lparr>rq_Namespace = p_Namespace pod, rq_PodName = p_Name pod,
      rq_Container = c_Name (e_Container e),
      rq_Command = [''sh'', ''-c'', Join cmd '' '']\<rparr>"

definition primaryRequest :: "Pod \<Rightarrow> JobExecutor \<Rightarrow> ExecRequest" where
  "primaryRequest pod e = execRequest pod e (e_command e @ e_args e)"

definition knownProtocol :: "ExecResponse \<Rightarrow> bool" where
  "knownProtocol resp =
     (case r_negotiate resp of
        Inl err \<Rightarrow> True
      | Inr protocol \<Rightarrow>
          protocol \<in> set [StreamProtocolV4Name, StreamProtocolV3Name,
                           StreamProtocolV2Name, [], StreamProtocolV1Name])"

definition streamError :: "ExecResponse \<Rightarrow> error option" where
  "streamError resp =
     (case r_requestErr resp of
        Some msg \<Rightarrow> Some (ErrPlain (''error creating request: '' @ msg))
      | None \<Rightarrow> (case r_negotiate resp of Inl err \<Rightarrow> Some err | Inr protocol \<Rightarrow> r_streamErr resp))"

text \<open>
  A running pod with the container \<open>test\<close>, its executor, and a cluster in which
  \<open>cat missingfile\<close> writes its complaint on standard error and exits with status 1.
\<close>

definition exRunningPod :: Pod where
  "exRunningPod =
     \<lparr>p_Name = ''kubejob-x'', p_Namespace = ''default'',
      p_InitContainers = [], p_Containers = [exTest],
      p_Phase = ''Running'',
      p_InitContainerStatuses = [],
      p_ContainerStatuses = [\<lparr>cs_Name = ''test'', cs_Terminated = None\<rparr>]\<rparr>"

definition exExecutor :: JobExecutor where
  "exExecutor =
     \<lparr>e_Container = exTest, e_pod = Some exRunningPod,
      e_command = [''cat'', ''missingfile''], e_args = [],
      e_disabledContainerLog = False, e_disabledCommandLog = False,
      e_protocols = [StreamProtocolV4Name, StreamProtocolV3Name,
                     StreamProtocolV2Name, StreamProtocolV1Name]\<rparr>"

definition exRemote :: remote where
  "exRemote hist req =
     (if rq_Command req = [''sh'', ''-c'', ''cat missingfile'']
      then \<lparr>r_requestErr = None, r_negotiate = Inr StreamProtocolV4Name,
            r_stdout = [], r_stderr = ''cat: missingfile: No such file or directory\<newline>'',
            r_streamErr = Some (ErrExternal ''command terminated with exit code 1'')\<rparr>
      else \<lparr>r_requestErr = None, r_negotiate = Inr StreamProtocolV4Name,
            r_stdout = [], r_stderr = [], r_streamErr = None\<rparr>)"

text \<open>
  A cluster in which the command succeeds and the request that writes the status
  cannot be sent.
\<close>

definition exBrokenRemote :: remote where
  "exBrokenRemote hist req =
     (if rq_Command req = [''sh'', ''-c'', ''echo 0 > /tmp/kubejob-status'']
      then \<lparr>r_requestErr = None,
            r_negotiate = Inl (ErrExternal ''error sending request: connection refused''),
            r_stdout = [], r_stderr = [], r_streamErr = None\<rparr>
      else \<lparr>r_requestErr = None, r_negotiate = Inr StreamProtocolV4Name,
            r_stdout = ''data'', r_stderr = [], r_streamErr = None\<rparr>)"

definition exProcess :: Process where
  "exProcess = \<lparr>w_stdout = [], w_stderr = [], w_log = [], w_requests = []\<rparr>"

text \<open>
  A job with the one container \<open>test\<close>, and a cluster in which its pod comes up
  running and stays silent, the watch channel closing after that event; the handler
  cancels the context and returns nil.
\<close>

definition exJob :: Job where
  "exJob =
     \<lparr>job_spec = \<lparr>j_Name = ''kubejob-x'', j_Labels = [(''kubejob-label-x'', ''kubejob-label-x'')],
                  j_RestartPolicy = ''Never'', j_InitContainers = [], j_Containers = [exTest]\<rparr>,
      disabledInitContainerLog = False, disabledInitCommandLog = False,
      disabledContainerLog = False, disabledCommandLog = False,
      podRunningCallback = None\<rparr>"

definition exSilentLog :: LogStream where
  "exSilentLog = \<lparr>ls_openErr = None, ls_reads = [], ls_ctxFirst = False\<rparr>"

definition exCancelCluster :: Cluster where
  "exCancelCluster =
     \<lparr>k_roundTripperErr = None, k_createErr = None, k_watchErr = None,
      k_watch = [WatchEvent (Some exRunningPod)], k_watchCloses = True,
      k_logs = (\<lambda>name. exSilentLog),
      k_deleteJobErr = None, k_podList = Some [exRunningPod],
      k_deletePodErr = (\<lambda>name. None), k_pick = 0, k_streamLag = 0, k_dying = 0,
      k_Sprintf = (\<lambda>text. text)\<rparr>"

definition exCancelHandler :: "JobExecutor list \<Rightarrow> CallbackResult" where
  "exCancelHandler executors = \<lparr>cb_err = None, cb_cancels = True\<rparr>"

text \<open>
  The same job with an init container, the job spec that \<open>RunWithExecutionHandler\<close>
  submits for it, and a handler that returns nil and cancels only when it is given
  one executor that holds the command \<open>cat missingfile\<close> and the running pod.
\<close>

definition exInitJob :: Job where
  "exInitJob = exJob\<lparr>job_spec := (job_spec exJob)\<lparr>j_InitContainers := [exInit]\<rparr>\<rparr>"

definition exSubmittedSpec :: JobSpec where
  "exSubmittedSpec =
     \<lparr>j_Name = ''kubejob-x'', j_Labels = [(''kubejob-label-x'', ''kubejob-label-x'')],
      j_RestartPolicy = ''Never'',
      j_InitContainers =
        [\<lparr>c_Name = ''init'', c_Image = ''golang:1.17-stretch'',
          c_Command = [''true''], c_Args = []\<rparr>],
      j_Containers =
        [\<lparr>c_Name = ''test'', c_Image = ''golang:1.17-stretch'',
          c_Command = [''sh''],
          c_Args = [''-c'',
                    ''\<newline>while [ ! -f /tmp/kubejob-status ]\<newline>do\<newline>    sleep 1;\<newline>done\<newline>\<newline>exit $(cat /tmp/kubejob-status)\<newline>'']\<rparr>]\<rparr>"

definition exCheckingHandler :: "JobExecutor list \<Rightarrow> CallbackResult" where
  "exCheckingHandler executors =
     (if map e_command executors = [[''cat'', ''missingfile'']]
         \<and> map e_args executors = [[]]
         \<and> map e_pod executors = [Some exRunningPod]
      then \<lparr>cb_err = None, cb_cancels = True\<rparr>
      else \<lparr>cb_err = Some (ErrPlain ''unexpected executors''), cb_cancels = False\<rparr>)"

text \<open>
  A builder, identifiers \<open>a\<close>, \<open>aa\<close>, \<open>aaa\<close>, ... for \<open>xid.New()\<close>, a job that asks for
  the restart policy \<open>OnFailure\<close> and leaves its container unnamed, and the jobs that
  \<open>BuildWithJob\<close> and \<open>Build\<close> make of them.
\<close>

definition exBuilder :: JobBuilder where
  "exBuilder = \<lparr>b_namespace = ''default'', b_image = ''golang:1.17-stretch'',
                 b_command = [''go'', ''version'']\<rparr>"

definition exBuildEnv :: BuildEnv where
  "exBuildEnv = \<lparr>be_NewForConfig = None, be_xid = (\<lambda>n. replicate (Suc n) CHR ''a'')\<rparr>"

definition exOnFailureSpec :: JobSpec where
  "exOnFailureSpec =
     \<lparr>j_Name = ''kubejob-x'', j_Labels = [(''app'', ''demo'')],
      j_RestartPolicy = ''OnFailure'', j_InitContainers = [],
      j_Containers = [\<lparr>c_Name = [], c_Image = ''golang:1.17-stretch'',
                       c_Command = [''go'', ''version''], c_Args = []\<rparr>]\<rparr>"

definition exBuiltJob :: Job where
  "exBuiltJob =
     \<lparr>job_spec =
        \<lparr>j_Name = ''kubejob-x'',
         j_Labels = [(''app'', ''demo''), (''kubejob-label-aa'', ''kubejob-label-aa'')],
         j_RestartPolicy = ''OnFailure'', j_InitContainers = [],
         j_Containers = [\<lparr>c_Name = ''kubejob-container-a'', c_Image = ''golang:1.17-stretch'',
                          c_Command = [''go'', ''version''], c_Args = []\<rparr>]\<rparr>,
      disabledInitContainerLog = False, disabledInitCommandLog = False,
      disabledContainerLog = False, disabledCommandLog = False,
      podRunningCallback = None\<rparr>"

definition exBuiltDefault :: Job where
  "exBuiltDefault =
     \<lparr>job_spec =
        \<lparr>j_Name = ''kubejob-a'',
         j_Labels = [(''kubejob-label-aaa'', ''kubejob-label-aaa'')],
         j_RestartPolicy = ''Never'', j_InitContainers = [],
         j_Containers = [\<lparr>c_Name = ''kubejob-container-aa'', c_Image = ''golang:1.17-stretch'',
                          c_Command = [''go'', ''version''], c_Args = []\<rparr>]\<rparr>,
      disabledInitContainerLog = False, disabledInitCommandLog = False,
      disabledContainerLog = False, disabledCommandLog = False,
      podRunningCallback = None\<rparr>"

text \<open>
  To state what a built job has: every container of the template's container list is
  named; a label is in the template's labels, mapped to itself, and is one of the
  terms of the pod selector.
\<close>

definition namedContainers :: "Job \<Rightarrow> bool" where
  "namedContainers job = list_all (\<lambda>c. c_Name c \<noteq> []) (j_Containers (job_spec job))"

definition carriesLabel :: "Job \<Rightarrow> string \<Rightarrow> bool" where
  "carriesLabel job label =
     (map_of (j_Labels (job_spec job)) label = Some label
      \<and> label @ ''='' @ label \<in> set (selectorTerms (job_spec job)))"

text \<open>
  An item of the watch that comes before the pod runs: an event with a pod whose phase
  is none of \<open>Running\<close>, \<open>Succeeded\<close> and \<open>Failed\<close>.
\<close>

definition beforeRunning :: "watch_item \<Rightarrow> bool" where
  "beforeRunning item =
     (case item of
        WatchEvent (Some pod) \<Rightarrow> p_Phase pod \<notin> set [PodRunning, PodSucceeded, PodFailed]
      | _ \<Rightarrow> False)"

text \<open>
  A watch that delivers \<open>Pending\<close>, \<open>Running\<close>, \<open>Running\<close> again, \<open>Pending\<close>,
  \<open>Running\<close> once more and \<open>Succeeded\<close>; a callback that returns nil.
\<close>

definition exPendingPod :: Pod where
  "exPendingPod = exRunningPod\<lparr>p_Phase := ''Pending'', p_ContainerStatuses := []\<rparr>"

definition exSucceededPod :: Pod where
  "exSucceededPod =
     exRunningPod
       \<lparr>p_Phase := ''Succeeded'',
        p_ContainerStatuses :=
          [\<lparr>cs_Name = ''test'',
            cs_Terminated = Some \<lparr>t_ExitCode = 0, t_Reason = ''Completed''\<rparr>\<rparr>]\<rparr>"

definition exQuietCallback :: "Pod \<Rightarrow> CallbackResult" where
  "exQuietCallback pod = \<lparr>cb_err = None, cb_cancels = False\<rparr>"

definition exDuplicateCluster :: Cluster where
  "exDuplicateCluster =
     exCancelCluster
       \<lparr>k_watch :=
          [WatchEvent (Some exPendingPod)]
          @ WatchEvent (Some exRunningPod)
            # [WatchEvent (Some exRunningPod), WatchEvent (Some exPendingPod),
               WatchEvent (Some exRunningPod), WatchEvent (Some exSucceededPod)]\<rparr>"


definition finishEvents :: "ContainerLog list \<Rightarrow> ContainerLog list" where
  "finishEvents events = filter cl_IsFinished events"


definition exEndedLog :: LogStream where
  "exEndedLog =
     \<lparr>ls_openErr = None,
      ls_reads = [ReadLine ''hello\<newline>'', ReadEOF [], ReadEOF [],
                  ReadError (ErrExternal ''http: read on closed response body'')],
      ls_ctxFirst = False\<rparr>"


definition exDeleteFailCluster :: Cluster where
  "exDeleteFailCluster =
     \<lparr>k_roundTripperErr = None, k_createErr = None, k_watchErr = None,
      k_watch = [WatchEvent (Some exFailedPod)], k_watchCloses = True,
      k_logs = (\<lambda>name. exEndedLog),
      k_deleteJobErr = Some (ErrExternal ''the server is currently unable to handle the request''),
      k_podList = Some [exFailedPod],
      k_deletePodErr = (\<lambda>name. None), k_pick = 0, k_streamLag = 0, k_dying = 0,
      k_Sprintf = (\<lambda>text. text)\<rparr>"

section \<open>Properties of FailedJob\<close>

lemma errorContainerNamesFromStatuses_filter:
  "errorContainerNamesFromStatuses statuses = map cs_Name (filter terminatedWithError statuses)"
  by (induction statuses) (auto simp: terminatedWithError_def split: option.splits)

lemma fillNameToContainerMap_append:
  "fillNameToContainerMap m (xs @ ys) = fillNameToContainerMap (fillNameToContainerMap m xs) ys"
  by (induction xs arbitrary: m) auto

lemma fillNameToContainerMap_notin:
  "name \<notin> set (map c_Name cs) \<Longrightarrow> fillNameToContainerMap m cs name = m name"
  by (induction cs arbitrary: m) auto

lemma fillNameToContainerMap_distinct:
  "distinct (map c_Name cs) \<Longrightarrow> c \<in> set cs \<Longrightarrow>
   fillNameToContainerMap m cs (c_Name c) = Some c"
proof (induction cs arbitrary: m)
  case Nil
  then show ?case by simp
next
  case (Cons a cs)
  show ?case
  proof (cases "c = a")
    case True
    with Cons.prems have "c_Name a \<notin> set (map c_Name cs)" by simp
    then show ?thesis using True by (simp add: fillNameToContainerMap_notin)
  next
    case False
    with Cons show ?thesis by simp
  qed
qed

lemma nameToContainerMap_distinct:
  assumes "distinct (map c_Name (specContainers pod))" and "c \<in> set (specContainers pod)"
  shows "mapIndex (nameToContainerMap pod) (c_Name c) = c"
proof -
  have "nameToContainerMap pod = fillNameToContainerMap Map.empty (specContainers pod)"
    by (simp add: nameToContainerMap_def specContainers_def fillNameToContainerMap_append)
  with assms show ?thesis
    by (simp add: mapIndex_def fillNameToContainerMap_distinct)
qed

text \<open>
  Claim C6. For a failed job whose pod is as the orchestrator reports it,
  \<open>FailedContainers\<close> returns the containers of the spec whose status is terminated
  with reason \<open>Error\<close> and no other (a container that is not terminated, or terminated
  with another reason such as \<open>Completed\<close>, is left out), the init containers first and
  then the regular ones, each group in the order of the pod's statuses.
\<close>

theorem FailedContainers_exact:
  assumes "fj_Pod j = Some pod" and "wellFormedPod pod"
  shows "\<exists>cs. FailedContainers j = Inr cs
           \<and> map c_Name cs =
               map cs_Name (filter terminatedWithError (p_InitContainerStatuses pod))
               @ map cs_Name (filter terminatedWithError (p_ContainerStatuses pod))
           \<and> set cs \<subseteq> set (specContainers pod)
           \<and> (\<forall>c \<in> set (specContainers pod).
                 c \<in> set cs \<longleftrightarrow>
                 (\<exists>s \<in> set (podStatuses pod). cs_Name s = c_Name c \<and> terminatedWithError s))"
proof -
  let ?failed = "filter terminatedWithError (podStatuses pod)"
  let ?lookup = "mapIndex (nameToContainerMap pod)"
  let ?cs = "map (\<lambda>s. ?lookup (cs_Name s)) ?failed"
  have dist: "distinct (map c_Name (specContainers pod))"
    and known: "\<forall>s \<in> set (podStatuses pod). cs_Name s \<in> set (map c_Name (specContainers pod))"
    using assms(2) by (simp_all add: wellFormedPod_def list_all_iff)
  have res: "FailedContainers j = Inr ?cs"
    using assms(1)
    by (simp add: FailedContainers_def FailedContainerNames_def podStatuses_def
        errorContainerNamesFromStatuses_filter comp_def)
  have found: "?lookup (cs_Name s) \<in> set (specContainers pod) \<and> c_Name (?lookup (cs_Name s)) = cs_Name s"
    if "s \<in> set (podStatuses pod)" for s
  proof -
    from known that obtain c where c: "c \<in> set (specContainers pod)" "c_Name c = cs_Name s"
      by auto
    with nameToContainerMap_distinct [OF dist c(1)] show ?thesis by simp
  qed
  have names: "map c_Name ?cs = map cs_Name ?failed"
    using found by (simp add: comp_def)
  have sub: "set ?cs \<subseteq> set (specContainers pod)"
    using found by auto
  have mem: "c \<in> set ?cs \<longleftrightarrow>
             (\<exists>s \<in> set (podStatuses pod). cs_Name s = c_Name c \<and> terminatedWithError s)"
    if c: "c \<in> set (specContainers pod)" for c
  proof
    assume "c \<in> set ?cs"
    then obtain s where s: "s \<in> set (podStatuses pod)" "terminatedWithError s"
      "c = ?lookup (cs_Name s)" by auto
    with found [OF s(1)] show "\<exists>s \<in> set (podStatuses pod). cs_Name s = c_Name c \<and> terminatedWithError s"
      by auto
  next
    assume "\<exists>s \<in> set (podStatuses pod). cs_Name s = c_Name c \<and> terminatedWithError s"
    then obtain s where s: "s \<in> set (podStatuses pod)" "cs_Name s = c_Name c" "terminatedWithError s"
      by auto
    have "?lookup (cs_Name s) = c"
      using nameToContainerMap_distinct [OF dist c] s(2) by simp
    with s show "c \<in> set ?cs" by force
  qed
  from res names sub mem show ?thesis
    by (auto simp: podStatuses_def)
qed

theorem FailedContainers_exact_witness:
  "fj_Pod \<lparr>fj_Pod = Some exFailedPod\<rparr> = Some exFailedPod \<and> wellFormedPod exFailedPod
   \<and> FailedContainers \<lparr>fj_Pod = Some exFailedPod\<rparr> = Inr [exTest]"
proof -
  have wf: "wellFormedPod exFailedPod"
    by (simp add: wellFormedPod_def exFailedPod_def specContainers_def podStatuses_def
        exInit_def exTest_def exSidecar_def)
  from FailedContainers_exact [OF _ wf, of "\<lparr>fj_Pod = Some exFailedPod\<rparr>"]
  obtain cs where cs: "FailedContainers \<lparr>fj_Pod = Some exFailedPod\<rparr> = Inr cs"
    "map c_Name cs = map cs_Name (filter terminatedWithError (p_InitContainerStatuses exFailedPod))
               @ map cs_Name (filter terminatedWithError (p_ContainerStatuses exFailedPod))"
    "set cs \<subseteq> set (specContainers exFailedPod)"
    by auto
  from cs(2) have names: "map c_Name cs = [''test'']"
    by (simp add: exFailedPod_def terminatedWithError_def)
  then obtain c where c: "cs = [c]" "c_Name c = ''test''" by auto
  with cs(3) have "c = exTest"
    by (auto simp: specContainers_def exFailedPod_def exInit_def exTest_def exSidecar_def)
  with c cs(1) wf show ?thesis by simp
qed

text \<open>
  Claim C10. Whatever pod a \<open>FailedJob\<close> carries, its \<open>Error\<close> method returns the
  fixed text \<open>failed to job\<close>, so the message names no command and no container.
\<close>

theorem FailedJob_Error_fixed:
  "FailedJob_Error j = ''failed to job'' \<and> Error_msg (ErrFailedJob j) = ''failed to job''"
  by (simp add: FailedJob_Error_def)

section \<open>Properties of Exec\<close>

lemma stream_known:
  "knownProtocol resp \<Longrightarrow>
   \<exists>w'. stream resp toStdout toStderr w = Inr (streamError resp, w')
        \<and> w_requests w' = w_requests w \<and> w_log w' = w_log w"
  by (auto simp: stream_def knownProtocol_def streamError_def Let_def Println_def
      toStdout_def toStderr_def split: option.splits sum.splits)

lemma exec_known:
  assumes "e_pod e = Some pod" and "\<And>hist req. knownProtocol (cluster hist req)"
  shows "\<exists>w'. exec cluster e cmd w =
              Inr ([], map_option (ErrWrap ''faield to exec command'')
                         (streamError (cluster (w_requests w) (execRequest pod e cmd))), w')
             \<and> w_requests w' = w_requests w @ [execRequest pod e cmd] \<and> w_log w' = w_log w"
proof -
  let ?req = "execRequest pod e cmd"
  let ?w1 = "w\<lparr>w_requests := w_requests w @ [?req]\<rparr>"
  have k: "knownProtocol (cluster (w_requests w) ?req)" by (rule assms(2))
  from stream_known [OF k, where w = ?w1]
  obtain w2 where w2: "stream (cluster (w_requests w) ?req) toStdout toStderr ?w1
                        = Inr (streamError (cluster (w_requests w) ?req), w2)"
    "w_requests w2 = w_requests w @ [?req]" "w_log w2 = w_log w" by auto
  show ?thesis
    using assms(1) w2
    by (cases "streamError (cluster (w_requests w) ?req)")
       (simp_all add: exec_def Let_def execRequest_def newBuffer_def buffer_Bytes_def Println_def)
qed

text \<open>
  Claim C7. A call of \<open>Exec\<close> on an executor whose pod is set, against a server that
  names a known protocol or fails, returns, and it has sent two requests: the
  executor's command, then \<open>echo status > /tmp/kubejob-status\<close> with status 0 when
  the command's stream ended without error and 1 otherwise. The bytes and the error
  returned depend on the first answer alone. When the second request fails, one line
  with its error is added to the log, and when it succeeds the log is as it was.
\<close>

theorem Exec_handshake:
  assumes pod: "e_pod e = Some pod"
    and known: "\<And>hist req. knownProtocol (cluster hist req)"
  shows "\<exists>w'. Exec cluster e w =
           Inr ([],
                (if streamError (cluster (w_requests w) (primaryRequest pod e)) = None
                 then None else Some (ErrFailedJob \<lparr>fj_Pod = Some pod\<rparr>)),
                w')
         \<and> w_requests w' =
             w_requests w
             @ [primaryRequest pod e,
                execRequest pod e
                  [''echo'',
                   (if streamError (cluster (w_requests w) (primaryRequest pod e)) = None
                    then ''0'' else ''1''),
                   ''>'', ''/tmp/kubejob-status'']]
         \<and> w_log w' =
             w_log w
             @ (case streamError
                       (cluster (w_requests w @ [primaryRequest pod e])
                          (execRequest pod e
                             [''echo'',
                              (if streamError (cluster (w_requests w) (primaryRequest pod e))
                                  = None
                               then ''0'' else ''1''),
                              ''>'', ''/tmp/kubejob-status''])) of
                  None \<Rightarrow> []
                | Some err \<Rightarrow>
                    [''failed to send test status: faield to exec command: ''
                     @ Error_msg err])"
proof -
  let ?cmd = "e_command e @ e_args e"
  let ?w1 = "if \<not> e_disabledCommandLog e
             then Println (OutText (Join ?cmd '' '' @ ''\<newline>'')) w else w"
  have w1: "w_requests ?w1 = w_requests w" "w_log ?w1 = w_log w" by (simp_all add: Println_def)
  let ?err1 = "streamError (cluster (w_requests w) (execRequest pod e ?cmd))"
  have "\<exists>w'. exec cluster e ?cmd ?w1 =
              Inr ([], map_option (ErrWrap ''faield to exec command'')
                         (streamError (cluster (w_requests ?w1) (execRequest pod e ?cmd))), w')
             \<and> w_requests w' = w_requests ?w1 @ [execRequest pod e ?cmd] \<and> w_log w' = w_log ?w1"
    by (rule exec_known [OF pod]) (rule known)
  then obtain w2 where w2: "exec cluster e ?cmd ?w1 = Inr ([], map_option (ErrWrap ''faield to exec command'') ?err1, w2)"
    "w_requests w2 = w_requests w @ [execRequest pod e ?cmd]" "w_log w2 = w_log w" unfolding w1 by auto
  let ?w3 = "Println (OutElapsed ''command time = '') w2"
  let ?status = "if ?err1 = None then 0 else 1 :: nat"
  let ?req2 = "execRequest pod e (statusCommand ?status)"
  let ?err2 = "streamError (cluster (w_requests w @ [execRequest pod e ?cmd]) ?req2)"
  have w3: "w_requests ?w3 = w_requests w @ [execRequest pod e ?cmd]" "w_log ?w3 = w_log w"
    using w2 by (simp_all add: Println_def)
  have "\<exists>w'. exec cluster e (statusCommand ?status) ?w3 =
              Inr ([], map_option (ErrWrap ''faield to exec command'')
                         (streamError (cluster (w_requests ?w3) ?req2)), w')
             \<and> w_requests w' = w_requests ?w3 @ [?req2] \<and> w_log w' = w_log ?w3"
    by (rule exec_known [OF pod]) (rule known)
  then obtain w4 where w4: "exec cluster e (statusCommand ?status) ?w3 =
       Inr ([], map_option (ErrWrap ''faield to exec command'') ?err2, w4)"
    "w_requests w4 = w_requests w @ [execRequest pod e ?cmd, ?req2]" "w_log w4 = w_log w"
    unfolding w3 by auto
  show ?thesis
    using w2 w4 pod
    by (cases ?err1; cases ?err2)
       (simp_all add: Exec_def Let_def Println_def primaryRequest_def statusCommand_def)
qed

theorem Exec_handshake_witness:
  "e_pod exExecutor = Some exRunningPod
   \<and> (\<forall>hist req. knownProtocol (exRemote hist req))
   \<and> (\<forall>hist req. knownProtocol (exBrokenRemote hist req))
   \<and> (\<exists>w'. Exec exRemote exExecutor exProcess =
              Inr ([], Some (ErrFailedJob \<lparr>fj_Pod = Some exRunningPod\<rparr>), w')
          \<and> w_requests w' =
              [\<lparr>rq_Namespace = ''default'', rq_PodName = ''kubejob-x'', rq_Container = ''test'',
                 rq_Command = [''sh'', ''-c'', ''cat missingfile'']\<rparr>,
               \<lparr>rq_Namespace = ''default'', rq_PodName = ''kubejob-x'', rq_Container = ''test'',
                 rq_Command = [''sh'', ''-c'', ''echo 1 > /tmp/kubejob-status'']\<rparr>]
          \<and> w_log w' = [])
   \<and> (\<exists>w'. Exec exBrokenRemote exExecutor exProcess = Inr ([], None, w')
          \<and> w_requests w' =
              [\<lparr>rq_Namespace = ''default'', rq_PodName = ''kubejob-x'', rq_Container = ''test'',
                 rq_Command = [''sh'', ''-c'', ''cat missingfile'']\<rparr>,
               \<lparr>rq_Namespace = ''default'', rq_PodName = ''kubejob-x'', rq_Container = ''test'',
                 rq_Command = [''sh'', ''-c'', ''echo 0 > /tmp/kubejob-status'']\<rparr>]
          \<and> w_log w' =
              [''failed to send test status: faield to exec command: error sending request: connection refused''])"
proof -
  have pod: "e_pod exExecutor = Some exRunningPod"
    by (simp add: exExecutor_def)
  have known: "knownProtocol (exRemote hist req)" for hist req
    by (simp add: exRemote_def knownProtocol_def)
  have known': "knownProtocol (exBrokenRemote hist req)" for hist req
    by (simp add: exBrokenRemote_def knownProtocol_def)
  have reqs: "primaryRequest exRunningPod exExecutor =
                \<lparr>rq_Namespace = ''default'', rq_PodName = ''kubejob-x'', rq_Container = ''test'',
                 rq_Command = [''sh'', ''-c'', ''cat missingfile'']\<rparr>"
     "execRequest exRunningPod exExecutor [''echo'', ''1'', ''>'', ''/tmp/kubejob-status''] =
               \<lparr>rq_Namespace = ''default'', rq_PodName = ''kubejob-x'', rq_Container = ''test'',
                 rq_Command = [''sh'', ''-c'', ''echo 1 > /tmp/kubejob-status'']\<rparr>"
     "execRequest exRunningPod exExecutor [''echo'', ''0'', ''>'', ''/tmp/kubejob-status''] =
               \<lparr>rq_Namespace = ''default'', rq_PodName = ''kubejob-x'', rq_Container = ''test'',
                 rq_Command = [''sh'', ''-c'', ''echo 0 > /tmp/kubejob-status'']\<rparr>"
    by (simp_all add: primaryRequest_def execRequest_def exExecutor_def exRunningPod_def exTest_def)
  have r1: "streamError (exRemote hist
               \<lparr>rq_Namespace = ''default'', rq_PodName = ''kubejob-x'', rq_Container = ''test'',
                 rq_Command = [''sh'', ''-c'', ''cat missingfile'']\<rparr>) =
             Some (ErrExternal ''command terminated with exit code 1'')"
    "streamError (exRemote hist
               \<lparr>rq_Namespace = ''default'', rq_PodName = ''kubejob-x'', rq_Container = ''test'',
                 rq_Command = [''sh'', ''-c'', ''echo 1 > /tmp/kubejob-status'']\<rparr>) = None"
    for hist
    by (simp_all add: exRemote_def streamError_def)
  have r2: "streamError (exBrokenRemote hist
               \<lparr>rq_Namespace = ''default'', rq_PodName = ''kubejob-x'', rq_Container = ''test'',
                 rq_Command = [''sh'', ''-c'', ''cat missingfile'']\<rparr>) = None"
    "streamError (exBrokenRemote hist
               \<lparr>rq_Namespace = ''default'', rq_PodName = ''kubejob-x'', rq_Container = ''test'',
                 rq_Command = [''sh'', ''-c'', ''echo 0 > /tmp/kubejob-status'']\<rparr>) =
             Some (ErrExternal ''error sending request: connection refused'')"
    for hist
    by (simp_all add: exBrokenRemote_def streamError_def)
  note h1 = Exec_handshake [where cluster = exRemote and e = exExecutor and pod = exRunningPod
      and w = exProcess, OF pod known]
  note h2 = Exec_handshake [where cluster = exBrokenRemote and e = exExecutor
      and pod = exRunningPod and w = exProcess, OF pod known']
  from h1 have a: "\<exists>w'. Exec exRemote exExecutor exProcess =
              Inr ([], Some (ErrFailedJob \<lparr>fj_Pod = Some exRunningPod\<rparr>), w')
          \<and> w_requests w' =
              [\<lparr>rq_Namespace = ''default'', rq_PodName = ''kubejob-x'', rq_Container = ''test'',
                 rq_Command = [''sh'', ''-c'', ''cat missingfile'']\<rparr>,
               \<lparr>rq_Namespace = ''default'', rq_PodName = ''kubejob-x'', rq_Container = ''test'',
                 rq_Command = [''sh'', ''-c'', ''echo 1 > /tmp/kubejob-status'']\<rparr>]
          \<and> w_log w' = []"
    by (simp add: reqs r1 exProcess_def)
  from h2 have b: "\<exists>w'. Exec exBrokenRemote exExecutor exProcess = Inr ([], None, w')
          \<and> w_requests w' =
              [\<lparr>rq_Namespace = ''default'', rq_PodName = ''kubejob-x'', rq_Container = ''test'',
                 rq_Command = [''sh'', ''-c'', ''cat missingfile'']\<rparr>,
               \<lparr>rq_Namespace = ''default'', rq_PodName = ''kubejob-x'', rq_Container = ''test'',
                 rq_Command = [''sh'', ''-c'', ''echo 0 > /tmp/kubejob-status'']\<rparr>]
          \<and> w_log w' =
              [''failed to send test status: faield to exec command: error sending request: connection refused'']"
    by (simp add: reqs r2 exProcess_def)
  from pod known known' a b show ?thesis by blast
qed

text \<open>
  Claim C1. At the container \<open>test\<close> running \<open>cat missingfile\<close>, whose complaint arrives
  on standard error: \<open>Exec\<close> returns no bytes (the text went to the standard error of
  the calling process), with a \<open>FailedJob\<close> of the running pod, whose
  \<open>FailedContainers\<close> is empty since no container of that pod is terminated.
\<close>

theorem Exec_returns_no_output:
  "\<exists>w'. Exec exRemote exExecutor exProcess =
           Inr ([], Some (ErrFailedJob \<lparr>fj_Pod = Some exRunningPod\<rparr>), w')
        \<and> w_stderr w' = [OutText ''cat: missingfile: No such file or directory\<newline>'']
        \<and> FailedContainers \<lparr>fj_Pod = Some exRunningPod\<rparr> = Inr []"
  by (simp add: Exec_def exec_def stream_def exRemote_def exExecutor_def exProcess_def
      Let_def Println_def toStdout_def toStderr_def newBuffer_def buffer_Bytes_def
      statusCommand_def StreamProtocolV4Name_def FailedContainers_def FailedContainerNames_def
      exRunningPod_def)

section \<open>Properties of RunWithExecutionHandler and Run\<close>

lemma wrapContainers_fst:
  "map e_Container (fst (wrapContainers j cs)) = cs
   \<and> map e_command (fst (wrapContainers j cs)) = map c_Command cs
   \<and> map e_args (fst (wrapContainers j cs)) = map c_Args cs"
  by (induction cs) (auto split: prod.splits)

lemma wrapContainers_snd:
  "snd (wrapContainers j cs) =
     map (\<lambda>c. c\<lparr>c_Command := [''sh''], c_Args := [''-c'', jobCommandTemplate]\<rparr>) cs"
  by (induction cs) (auto split: prod.splits)

lemma deletePods_calls:
  "snd (deletePods k pods e) = map (\<lambda>pod. DeletePod (p_Name pod)) pods"
proof (induction pods arbitrary: e)
  case Nil
  show ?case by simp
next
  case (Cons pod pods)
  define e' where "e' =
    (case k_deletePodErr k (p_Name pod) of
       None \<Rightarrow> e
     | Some d \<Rightarrow>
         (let err = ErrWrap ''failed to delete pod'' d
          in case e of
               None \<Rightarrow> Some err
             | Some e0 \<Rightarrow>
                 Some (ErrPlain
                         (k_Sprintf k (Join [Error_msg e0, Error_msg err] ''\<newline>'')))))"
  have "deletePods k (pod # pods) e =
          (fst (deletePods k pods e'), DeletePod (p_Name pod) # snd (deletePods k pods e'))"
    by (simp add: e'_def Let_def split: prod.splits)
  with Cons.IH [of e'] show ?case by simp
qed

lemma cleanup_calls:
  "snd (cleanup k j e) =
     [DeleteJob (j_Name (job_spec j)), ListPods (labelSelector (job_spec j))]
     @ (case k_podList k of None \<Rightarrow> [] | Some pods \<Rightarrow> map (\<lambda>pod. DeletePod (p_Name pod)) pods)"
proof (cases "k_podList k")
  case None
  then show ?thesis by (simp add: cleanup_def Let_def)
next
  case (Some pods)
  define e1 where "e1 =
    (case k_deleteJobErr k of Some d \<Rightarrow> Some (ErrWrap ''failed to delete job'' d) | None \<Rightarrow> e)"
  have "snd (cleanup k j e) =
          [DeleteJob (j_Name (job_spec j)), ListPods (labelSelector (job_spec j))]
          @ snd (deletePods k pods e1)"
    using Some by (simp add: cleanup_def Let_def e1_def split: prod.splits)
  with Some show ?thesis by (simp add: deletePods_calls)
qed

lemma Run_calls:
  "\<exists>calls. rr_calls (Run k j) = CreateJob (job_spec j) # calls \<and> (\<forall>spec. CreateJob spec \<notin> set calls)"
proof (cases "k_createErr k")
  case (Some err)
  then show ?thesis by (simp add: Run_def)
next
  case None
  show ?thesis
  proof (cases "wrapOutcome ''failed to wait'' (wr_outcome (wait k j))")
    case (Returned e)
    obtain e' dels where c: "cleanup k j e = (e', dels)" by (cases "cleanup k j e")
    with cleanup_calls [of k j e] have "\<forall>spec. CreateJob spec \<notin> set dels"
      by (auto split: option.splits)
    with None Returned c show ?thesis by (simp add: Run_def Let_def)
  next
    case Blocked
    with None show ?thesis by (simp add: Run_def Let_def)
  next
    case (Panicked p)
    have "\<forall>spec. CreateJob spec \<notin> set (snd (cleanup k j None))"
      using cleanup_calls [of k j None] by (auto split: option.splits)
    then have "\<forall>spec. CreateJob spec \<notin> set (take (k_dying k) (snd (cleanup k j None)))"
      by (meson in_set_takeD)
    with None Panicked show ?thesis by (simp add: Run_def Let_def)
  qed
qed

lemma wrapContainers_executors:
  "fst (wrapContainers j cs) =
     map (\<lambda>c. \<lparr>e_Container = c, e_pod = None, e_command = c_Command c, e_args = c_Args c,
                e_disabledContainerLog = disabledContainerLog j,
                e_disabledCommandLog = disabledCommandLog j,
                e_protocols = [StreamProtocolV4Name, StreamProtocolV3Name,
                               StreamProtocolV2Name, StreamProtocolV1Name]\<rparr>) cs"
  by (induction cs) (auto split: prod.splits)

text \<open>
  Claim C8, as stated, fails: the loop of \<open>RunWithExecutionHandler\<close> ranges over the
  template's container list only, so an init container is in the job that is created
  with the command it was given.
\<close>

theorem RunWithExecutionHandler_submits_init_command:
  "hd (rr_calls (RunWithExecutionHandler exCancelCluster exInitJob exCancelHandler))
     = CreateJob exSubmittedSpec
   \<and> map c_Command (j_InitContainers exSubmittedSpec) = [[''true'']]"
proof -
  have rt: "k_roundTripperErr exCancelCluster = None"
    by (simp add: exCancelCluster_def)
  have spec: "job_spec (withExecutionHandler exInitJob exCancelHandler) = exSubmittedSpec"
    by (simp add: withExecutionHandler_def exInitJob_def exJob_def exTest_def exInit_def
        exSubmittedSpec_def jobCommandTemplate_def split: prod.splits)
  from Run_calls [of exCancelCluster "withExecutionHandler exInitJob exCancelHandler"]
  have "hd (rr_calls (Run exCancelCluster (withExecutionHandler exInitJob exCancelHandler)))
          = CreateJob exSubmittedSpec"
    using spec by auto
  then show ?thesis
    using rt by (simp add: RunWithExecutionHandler_def Let_def exSubmittedSpec_def)
qed

text \<open>
  Claim C8, amended. When \<open>RunWithExecutionHandler\<close> gets its round tripper, it is
  \<open>Run\<close> on a job that differs from the given one in three things. Every container of
  the template's container list has the command \<open>sh\<close> with the arguments \<open>-c\<close> and
  the script that waits for \<open>/tmp/kubejob-status\<close> and exits with its content; the
  init containers are as they were given. The command log is off. The callback calls
  the handler with one executor for each container of the given list, in order, which
  holds the container as it was given, its command, its arguments and the running pod.
  That job is the one job the run creates.
\<close>

theorem RunWithExecutionHandler_wraps_commands:
  assumes "k_roundTripperErr k = None"
  shows "\<exists>cb executors calls.
           rr_calls (RunWithExecutionHandler k j handler) =
             CreateJob (job_spec (withExecutionHandler j handler)) # calls
         \<and> (\<forall>spec. CreateJob spec \<notin> set calls)
         \<and> RunWithExecutionHandler k j handler =
             (Run k (withExecutionHandler j handler))
               \<lparr>rr_outcome :=
                  wrapOutcome ''failed to run job''
                    (rr_outcome (Run k (withExecutionHandler j handler)))\<rparr>
         \<and> withExecutionHandler j handler =
             j\<lparr>job_spec :=
                  (job_spec j)
                    \<lparr>j_Containers :=
                       map (\<lambda>c. c\<lparr>c_Command := [''sh''],
                                    c_Args := [''-c'',
                                               ''\<newline>while [ ! -f /tmp/kubejob-status ]\<newline>do\<newline>    sleep 1;\<newline>done\<newline>\<newline>exit $(cat /tmp/kubejob-status)\<newline>'']\<rparr>)
                         (j_Containers (job_spec j))\<rparr>,
               disabledCommandLog := True,
               podRunningCallback := Some cb\<rparr>
         \<and> j_InitContainers (job_spec (withExecutionHandler j handler))
             = j_InitContainers (job_spec j)
         \<and> (\<forall>pod. executors pod =
               map (\<lambda>c. \<lparr>e_Container = c, e_pod = Some pod,
                          e_command = c_Command c, e_args = c_Args c,
                          e_disabledContainerLog = disabledContainerLog j,
                          e_disabledCommandLog = disabledCommandLog j,
                          e_protocols = [StreamProtocolV4Name, StreamProtocolV3Name,
                                         StreamProtocolV2Name, StreamProtocolV1Name]\<rparr>)
                 (j_Containers (job_spec j)))
         \<and> (\<forall>pod. cb pod =
               \<lparr>cb_err = map_option (ErrWrap ''failed to handle executors'')
                           (cb_err (handler (executors pod))),
                cb_cancels = cb_cancels (handler (executors pod))\<rparr>)"
proof -
  let ?cs = "j_Containers (job_spec j)"
  let ?j' = "withExecutionHandler j handler"
  let ?cb = "executionCallback (fst (wrapContainers j ?cs)) handler"
  let ?executors = "\<lambda>pod. map (\<lambda>exec. exec\<lparr>e_pod := Some pod\<rparr>) (fst (wrapContainers j ?cs))"
  have job: "?j' =
     j\<lparr>job_spec :=
          (job_spec j)
            \<lparr>j_Containers :=
               map (\<lambda>c. c\<lparr>c_Command := [''sh''],
                            c_Args := [''-c'',
                                       ''\<newline>while [ ! -f /tmp/kubejob-status ]\<newline>do\<newline>    sleep 1;\<newline>done\<newline>\<newline>exit $(cat /tmp/kubejob-status)\<newline>'']\<rparr>)
                 ?cs\<rparr>,
       disabledCommandLog := True,
       podRunningCallback := Some ?cb\<rparr>"
    by (simp add: withExecutionHandler_def case_prod_beta wrapContainers_snd
        jobCommandTemplate_def)
  have init: "j_InitContainers (job_spec ?j') = j_InitContainers (job_spec j)"
    by (simp add: withExecutionHandler_def split: prod.splits)
  have execs: "?executors pod =
               map (\<lambda>c. \<lparr>e_Container = c, e_pod = Some pod,
                          e_command = c_Command c, e_args = c_Args c,
                          e_disabledContainerLog = disabledContainerLog j,
                          e_disabledCommandLog = disabledCommandLog j,
                          e_protocols = [StreamProtocolV4Name, StreamProtocolV3Name,
                                         StreamProtocolV2Name, StreamProtocolV1Name]\<rparr>)
                 ?cs" for pod
    by (simp add: wrapContainers_executors comp_def)
  have cb: "?cb pod =
               \<lparr>cb_err = map_option (ErrWrap ''failed to handle executors'')
                           (cb_err (handler (?executors pod))),
                cb_cancels = cb_cancels (handler (?executors pod))\<rparr>" for pod
    by (simp add: executionCallback_def Let_def)
  from Run_calls [of k ?j'] obtain calls where
    calls: "rr_calls (Run k ?j') = CreateJob (job_spec ?j') # calls"
      "\<forall>spec. CreateJob spec \<notin> set calls"
    by auto
  have run: "RunWithExecutionHandler k j handler =
               (Run k ?j')\<lparr>rr_outcome := wrapOutcome ''failed to run job'' (rr_outcome (Run k ?j'))\<rparr>"
    using assms by (simp add: RunWithExecutionHandler_def Let_def)
  then have "rr_calls (RunWithExecutionHandler k j handler) = rr_calls (Run k ?j')"
    by simp
  with calls have c: "rr_calls (RunWithExecutionHandler k j handler) = CreateJob (job_spec ?j') # calls"
    by simp
  note none = calls(2) [rule_format]
  show ?thesis
    by (rule exI [of _ ?cb], rule exI [of _ ?executors], rule exI [of _ calls])
       (intro conjI allI c none run job init execs cb)
qed

theorem RunWithExecutionHandler_wraps_commands_witness:
  "k_roundTripperErr exCancelCluster = None
   \<and> (\<exists>calls. rr_calls (RunWithExecutionHandler exCancelCluster exInitJob exCheckingHandler)
                 = CreateJob exSubmittedSpec # calls)
   \<and> (\<exists>cb. podRunningCallback (withExecutionHandler exInitJob exCheckingHandler) = Some cb
          \<and> cb exRunningPod = \<lparr>cb_err = None, cb_cancels = True\<rparr>)"
proof -
  have rt: "k_roundTripperErr exCancelCluster = None"
    by (simp add: exCancelCluster_def)
  from RunWithExecutionHandler_wraps_commands [OF rt, of exInitJob exCheckingHandler]
  obtain cb executors calls where
    c: "rr_calls (RunWithExecutionHandler exCancelCluster exInitJob exCheckingHandler) =
          CreateJob (job_spec (withExecutionHandler exInitJob exCheckingHandler)) # calls"
    and j: "withExecutionHandler exInitJob exCheckingHandler =
             exInitJob\<lparr>job_spec :=
                  (job_spec exInitJob)
                    \<lparr>j_Containers :=
                       map (\<lambda>c. c\<lparr>c_Command := [''sh''],
                                    c_Args := [''-c'',
                                               ''\<newline>while [ ! -f /tmp/kubejob-status ]\<newline>do\<newline>    sleep 1;\<newline>done\<newline>\<newline>exit $(cat /tmp/kubejob-status)\<newline>'']\<rparr>)
                         (j_Containers (job_spec exInitJob))\<rparr>,
               disabledCommandLog := True,
               podRunningCallback := Some cb\<rparr>"
    and e: "\<And>pod. executors pod =
               map (\<lambda>c. \<lparr>e_Container = c, e_pod = Some pod,
                          e_command = c_Command c, e_args = c_Args c,
                          e_disabledContainerLog = disabledContainerLog exInitJob,
                          e_disabledCommandLog = disabledCommandLog exInitJob,
                          e_protocols = [StreamProtocolV4Name, StreamProtocolV3Name,
                                         StreamProtocolV2Name, StreamProtocolV1Name]\<rparr>)
                 (j_Containers (job_spec exInitJob))"
    and h: "\<And>pod. cb pod =
               \<lparr>cb_err = map_option (ErrWrap ''failed to handle executors'')
                           (cb_err (exCheckingHandler (executors pod))),
                cb_cancels = cb_cancels (exCheckingHandler (executors pod))\<rparr>"
    by blast
  have spec: "job_spec (withExecutionHandler exInitJob exCheckingHandler) = exSubmittedSpec"
    by (subst j) (simp add: exInitJob_def exJob_def exTest_def exInit_def exSubmittedSpec_def)
  have "podRunningCallback (withExecutionHandler exInitJob exCheckingHandler) = Some cb"
    by (subst j) simp
  moreover have "cb exRunningPod = \<lparr>cb_err = None, cb_cancels = True\<rparr>"
    by (simp add: h e exCheckingHandler_def exInitJob_def exJob_def exTest_def)
  ultimately show ?thesis using rt c spec by auto
qed

section \<open>Properties of JobBuilder\<close>

lemma nameContainers_named:
  "list_all (\<lambda>c. c_Name c \<noteq> []) (fst (nameContainers env cs n))"
proof (induction cs arbitrary: n)
  case Nil
  show ?case by simp
next
  case (Cons c cs)
  show ?case
  proof (cases "c_Name c = []")
    case True
    have "fst (nameContainers env (c # cs) n) =
            c\<lparr>c_Name := ''kubejob-container-'' @ be_xid env n\<rparr>
            # fst (nameContainers env cs (Suc n))"
      using True by (simp add: containerName_def generateName_def split: prod.splits)
    with Cons.IH [of "Suc n"] show ?thesis by simp
  next
    case False
    have "fst (nameContainers env (c # cs) n) = c # fst (nameContainers env cs n)"
      using False by (simp split: prod.splits)
    with Cons.IH [of n] False show ?thesis by simp
  qed
qed

lemma nameContainers_counter: "n \<le> snd (nameContainers env cs n)"
proof (induction cs arbitrary: n)
  case Nil
  show ?case by simp
next
  case (Cons c cs)
  show ?case
  proof (cases "c_Name c = []")
    case True
    have "snd (nameContainers env (c # cs) n) = snd (nameContainers env cs (Suc n))"
      using True by (simp add: containerName_def generateName_def split: prod.splits)
    with Cons.IH [of "Suc n"] show ?thesis by simp
  next
    case False
    have "snd (nameContainers env (c # cs) n) = snd (nameContainers env cs n)"
      using False by (simp split: prod.splits)
    with Cons.IH [of n] show ?thesis by simp
  qed
qed

lemma selectorTerms_update:
  "k @ ''='' @ v \<in> set (selectorTerms (js\<lparr>j_Labels := AList.update k v (j_Labels js)\<rparr>))"
proof -
  let ?labels = "AList.update k v (j_Labels js)"
  let ?entry = "\<lambda>key. key @ ''='' @ labelValue ?labels key"
  have "map_of ?labels k = Some v" by (simp add: update_conv')
  then have v: "labelValue ?labels k = v" by (simp add: labelValue_def)
  have "k \<in> set (sort (map fst ?labels))" by (simp add: dom_update)
  then have "?entry k \<in> ?entry ` set (sort (map fst ?labels))" by (rule imageI)
  with v show ?thesis by (simp add: selectorTerms_def)
qed

lemma BuildWithJob_result:
  assumes "BuildWithJob b env jobSpec n = (Inr job, n')"
  shows "namedContainers job
       \<and> j_RestartPolicy (job_spec job) =
           (if j_RestartPolicy jobSpec = [] then RestartPolicyNever else j_RestartPolicy jobSpec)
       \<and> j_InitContainers (job_spec job) = j_InitContainers jobSpec
       \<and> n < n' \<and> carriesLabel job (''kubejob-label-'' @ be_xid env (n' - 1))"
proof -
  from assms have cfg: "be_NewForConfig env = None"
    by (auto simp: BuildWithJob_def split: option.splits)
  define n1 where "n1 = (if j_Name jobSpec = [] then Suc n else n)"
  define name where "name = (if j_Name jobSpec = [] then ''kubejob-'' @ be_xid env n else j_Name jobSpec)"
  define cs where "cs = fst (nameContainers env (j_Containers jobSpec) n1)"
  define n2 where "n2 = snd (nameContainers env (j_Containers jobSpec) n1)"
  define label where "label = ''kubejob-label-'' @ be_xid env n2"
  have res: "BuildWithJob b env jobSpec n =
     (Inr \<lparr>job_spec = jobSpec
             \<lparr>j_Name := name,
              j_RestartPolicy :=
                (if j_RestartPolicy jobSpec = [] then RestartPolicyNever
                 else j_RestartPolicy jobSpec),
              j_Containers := cs,
              j_Labels := AList.update label label (j_Labels jobSpec)\<rparr>,
           disabledInitContainerLog = False,
           disabledInitCommandLog = False,
           disabledContainerLog = False,
           disabledCommandLog = False,
           podRunningCallback = None\<rparr>, Suc n2)"
    using cfg
    by (simp add: BuildWithJob_def n1_def name_def cs_def n2_def label_def jobName_def
        labelName_def generateName_def split: prod.splits)
  with assms have job: "job = \<lparr>job_spec = jobSpec
             \<lparr>j_Name := name,
              j_RestartPolicy :=
                (if j_RestartPolicy jobSpec = [] then RestartPolicyNever
                 else j_RestartPolicy jobSpec),
              j_Containers := cs,
              j_Labels := AList.update label label (j_Labels jobSpec)\<rparr>,
           disabledInitContainerLog = False,
           disabledInitCommandLog = False,
           disabledContainerLog = False,
           disabledCommandLog = False,
           podRunningCallback = None\<rparr>" and n': "n' = Suc n2"
    by simp_all
  have "n \<le> n1" by (simp add: n1_def)
  also have "n1 \<le> n2" unfolding n2_def by (rule nameContainers_counter)
  finally have lt: "n < n'" using n' by simp
  have named: "namedContainers job"
    using nameContainers_named [of env "j_Containers jobSpec" n1]
    by (simp add: namedContainers_def job cs_def)
  have "map_of (AList.update label label (j_Labels jobSpec)) label = Some label"
    by (simp add: update_conv')
  moreover have "label @ ''='' @ label \<in> set (selectorTerms (job_spec job))"
    using selectorTerms_update [of label label "jobSpec\<lparr>j_Name := name,
              j_RestartPolicy :=
                (if j_RestartPolicy jobSpec = [] then RestartPolicyNever
                 else j_RestartPolicy jobSpec),
              j_Containers := cs\<rparr>"]
    by (simp add: job selectorTerms_def)
  ultimately have "carriesLabel job label"
    by (simp add: carriesLabel_def job)
  with named lt n' show ?thesis
    by (simp add: job label_def)
qed


lemma Build_result:
  assumes "Build b env n = (Inr job, n')"
  shows "namedContainers job \<and> j_RestartPolicy (job_spec job) = RestartPolicyNever
       \<and> n < n' \<and> carriesLabel job (''kubejob-label-'' @ be_xid env (n' - 1))"
proof -
  from assms have img: "b_image b \<noteq> []"
    by (auto simp: Build_def split: if_splits)
  define jobSpec where "jobSpec =
     \<lparr>j_Name = ''kubejob-'' @ be_xid env n, j_Labels = [],
      j_RestartPolicy = RestartPolicyNever, j_InitContainers = [],
      j_Containers = [\<lparr>c_Name = ''kubejob-container-'' @ be_xid env (Suc n),
                       c_Image = b_image b, c_Command = b_command b, c_Args = []\<rparr>]\<rparr>"
  have "Build b env n = BuildWithJob b env jobSpec (Suc (Suc n))"
    using img
    by (simp add: Build_def jobName_def containerName_def generateName_def jobSpec_def)
  with assms have "BuildWithJob b env jobSpec (Suc (Suc n)) = (Inr job, n')" by simp
  from BuildWithJob_result [OF this] show ?thesis
    by (simp add: jobSpec_def RestartPolicyNever_def)
qed

lemma BuildWithReader_result:
  assumes "BuildWithReader b env decoded n = (Inr job, n')"
  shows "\<exists>jobSpec. decoded = Inr jobSpec \<and> BuildWithJob b env jobSpec n = (Inr job, n')"
  using assms by (cases decoded) (simp_all add: BuildWithReader_def)

lemma BuildWithJob_labels_differ:
  assumes "inj (be_xid env)"
    and "BuildWithJob b env spec1 n = (Inr job1, n1)"
    and "BuildWithJob b' env spec2 n1 = (Inr job2, n2)"
  shows "\<exists>l1 l2. carriesLabel job1 l1 \<and> carriesLabel job2 l2 \<and> l1 \<noteq> l2"
proof -
  from BuildWithJob_result [OF assms(2)] BuildWithJob_result [OF assms(3)]
  have c1: "carriesLabel job1 (''kubejob-label-'' @ be_xid env (n1 - 1))"
    and c2: "carriesLabel job2 (''kubejob-label-'' @ be_xid env (n2 - 1))"
    and lt: "n < n1" "n1 < n2" by simp_all
  from lt have "n1 - 1 \<noteq> n2 - 1" by arith
  with assms(1) have "be_xid env (n1 - 1) \<noteq> be_xid env (n2 - 1)"
    by (auto dest: injD)
  with c1 c2 show ?thesis by blast
qed

text \<open>
  Claim C9, as stated, fails: \<open>BuildWithJob\<close> sets the restart policy only when the job
  leaves it empty, so a job that asks for \<open>OnFailure\<close> keeps it.
\<close>

theorem BuildWithJob_keeps_restart_policy:
  "BuildWithJob exBuilder exBuildEnv exOnFailureSpec 0 = (Inr exBuiltJob, 2)
   \<and> j_RestartPolicy (job_spec exBuiltJob) \<noteq> RestartPolicyNever"
  by (simp add: BuildWithJob_def exBuildEnv_def exOnFailureSpec_def exBuiltJob_def
      labelName_def containerName_def generateName_def RestartPolicyNever_def)

text \<open>
  Claim C9, amended. In a job that \<open>BuildWithJob\<close> returns, every container of the
  template's container list has a name that is not empty (the init containers are as
  they were given), the restart policy is \<open>Never\<close> when the given job leaves it empty
  and the given policy otherwise, and the template carries the label
  \<open>kubejob-label-\<close> followed by the identifier drawn last in this build, mapped to
  itself and a term of the pod selector. \<open>BuildWithReader\<close> is \<open>BuildWithJob\<close> on the
  decoded job, and a job from \<open>Build\<close> has the same properties with the restart policy
  \<open>Never\<close>.
\<close>

theorem JobBuilder_result:
  "(BuildWithJob b env jobSpec n = (Inr job, n') \<longrightarrow>
      namedContainers job
      \<and> j_RestartPolicy (job_spec job) =
          (if j_RestartPolicy jobSpec = [] then RestartPolicyNever else j_RestartPolicy jobSpec)
      \<and> j_InitContainers (job_spec job) = j_InitContainers jobSpec
      \<and> n < n' \<and> carriesLabel job (''kubejob-label-'' @ be_xid env (n' - 1)))
   \<and> (BuildWithReader b env decoded n = (Inr job, n') \<longrightarrow>
        (\<exists>jobSpec. decoded = Inr jobSpec \<and> BuildWithJob b env jobSpec n = (Inr job, n')))
   \<and> (Build b env n = (Inr job, n') \<longrightarrow>
        namedContainers job \<and> j_RestartPolicy (job_spec job) = RestartPolicyNever
        \<and> n < n' \<and> carriesLabel job (''kubejob-label-'' @ be_xid env (n' - 1)))"
  using BuildWithJob_result [of b env jobSpec n job n'] Build_result [of b env n job n']
    BuildWithReader_result [of b env decoded n job n']
  by blast

theorem JobBuilder_result_witness:
  "BuildWithJob exBuilder exBuildEnv exOnFailureSpec 0 = (Inr exBuiltJob, 2)
   \<and> BuildWithReader exBuilder exBuildEnv (Inr exOnFailureSpec) 0 = (Inr exBuiltJob, 2)
   \<and> namedContainers exBuiltJob
   \<and> j_RestartPolicy (job_spec exBuiltJob) = ''OnFailure''
   \<and> carriesLabel exBuiltJob ''kubejob-label-aa''
   \<and> Build exBuilder exBuildEnv 0 = (Inr exBuiltDefault, 3)
   \<and> namedContainers exBuiltDefault
   \<and> j_RestartPolicy (job_spec exBuiltDefault) = RestartPolicyNever
   \<and> carriesLabel exBuiltDefault ''kubejob-label-aaa''"
proof -
  have b1: "BuildWithJob exBuilder exBuildEnv exOnFailureSpec 0 = (Inr exBuiltJob, 2)"
    by (simp add: BuildWithJob_def exBuildEnv_def exOnFailureSpec_def exBuiltJob_def
        labelName_def containerName_def generateName_def)
  have b2: "BuildWithReader exBuilder exBuildEnv (Inr exOnFailureSpec) 0 = (Inr exBuiltJob, 2)"
    using b1 by (simp add: BuildWithReader_def)
  have b3: "Build exBuilder exBuildEnv 0 = (Inr exBuiltDefault, 3)"
    by (simp add: Build_def BuildWithJob_def exBuilder_def exBuildEnv_def exBuiltDefault_def
        jobName_def labelName_def containerName_def generateName_def RestartPolicyNever_def)
  have x: "be_xid exBuildEnv (2 - 1) = ''aa''" "be_xid exBuildEnv (3 - 1) = ''aaa''"
    by (simp_all add: exBuildEnv_def numeral_2_eq_2 numeral_3_eq_3)
  from JobBuilder_result [of exBuilder exBuildEnv exOnFailureSpec 0 exBuiltJob 2 "Inr exOnFailureSpec"] b1
  have "namedContainers exBuiltJob \<and> carriesLabel exBuiltJob ''kubejob-label-aa''
        \<and> j_RestartPolicy (job_spec exBuiltJob) = ''OnFailure''"
    using x by (simp add: exOnFailureSpec_def)
  moreover
  from JobBuilder_result [of exBuilder exBuildEnv exOnFailureSpec 0 exBuiltDefault 3 "Inr exOnFailureSpec"] b3
  have "namedContainers exBuiltDefault \<and> carriesLabel exBuiltDefault ''kubejob-label-aaa''
        \<and> j_RestartPolicy (job_spec exBuiltDefault) = RestartPolicyNever"
    using x by simp
  ultimately show ?thesis using b1 b2 b3 by simp
qed

section \<open>Properties of the watch loop\<close>

lemma assigned_fields:
  "ws_phase (assigned pod s) = ws_phase s"
  "ws_onceDone (assigned pod s) = ws_onceDone s"
  "ws_ctxDone (assigned pod s) = ws_ctxDone s"
  "ws_callbacks (assigned pod s) = ws_callbacks s"
  "ws_logStreams (assigned pod s) = ws_logStreams s"
  by (simp_all add: assigned_def)

lemma assigned_not_started: "\<not> ws_onceDone s \<Longrightarrow> assigned pod s = s"
  by (simp add: assigned_def)

lemma watchEvents_onceDone:
  "ws_onceDone s \<Longrightarrow>
   ws_callbacks (snd (watchEvents callback closes items s)) = ws_callbacks s
   \<and> ws_logStreams (snd (watchEvents callback closes items s)) = ws_logStreams s"
proof (induction callback closes items s rule: watchEvents.induct)
  case (1 callback closes s)
  show ?case by simp
next
  case (2 callback closes items s)
  then show ?case by simp
next
  case (3 callback closes items s)
  show ?case by simp
next
  case (4 callback closes pod items s)
  then show ?case by (simp add: Let_def assigned_fields)
qed

lemma watchEvents_at_most_once:
  "\<exists>cbs lss. length cbs \<le> 1 \<and> length lss \<le> 1
     \<and> ws_callbacks (snd (watchEvents callback closes items s)) = ws_callbacks s @ cbs
     \<and> ws_logStreams (snd (watchEvents callback closes items s)) = ws_logStreams s @ lss"
proof (induction callback closes items s rule: watchEvents.induct)
  case (1 callback closes s)
  show ?case by simp
next
  case (2 callback closes items s)
  then show ?case by simp
next
  case (3 callback closes items s)
  show ?case by simp
next
  case (4 callback closes pod items s)
  show ?case
  proof (cases "ws_onceDone s")
    case True
    with watchEvents_onceDone [of s callback closes "WatchEvent (Some pod) # items"]
    show ?thesis by simp
  next
    case notDone: False
    show ?thesis
    proof (cases "ws_ctxDone s")
      case True
      then show ?thesis by (simp add: assigned_fields)
    next
      case ctx: False
      show ?thesis
      proof (cases "p_Phase pod = ws_phase s")
        case True
        with ctx "4.IH"(1) show ?thesis by (simp add: assigned_fields)
      next
        case ph: False
        show ?thesis
        proof (cases "p_Phase pod = PodRunning")
          case run: True
          show ?thesis
          proof (cases callback)
            case None
            let ?s' = "s\<lparr>ws_onceDone := True, ws_logStreams := ws_logStreams s @ [pod],
                           ws_phase := p_Phase pod\<rparr>"
            have "watchEvents callback closes (WatchEvent (Some pod) # items) s =
                    watchEvents callback closes items ?s'"
              using ctx ph run notDone None by simp
            with watchEvents_onceDone [of ?s' callback closes items]
            show ?thesis by simp
          next
            case (Some f)
            let ?s' = "s\<lparr>ws_onceDone := True, ws_ctxDone := cb_cancels (f pod),
                           ws_callbacks := ws_callbacks s @ [pod],
                           ws_logStreams := ws_logStreams s @ [pod]\<rparr>"
            show ?thesis
            proof (cases "cb_err (f pod)")
              case None
              have "watchEvents callback closes (WatchEvent (Some pod) # items) s =
                      watchEvents callback closes items (?s'\<lparr>ws_phase := p_Phase pod\<rparr>)"
                using ctx ph run notDone Some None by (simp add: Let_def)
              with watchEvents_onceDone [of "?s'\<lparr>ws_phase := p_Phase pod\<rparr>" callback closes items]
              show ?thesis by simp
            next
              case (Some callbackErr)
              with ctx ph run notDone \<open>callback = Some f\<close> show ?thesis by (simp add: Let_def)
            qed
          qed
        next
          case notRun: False
          show ?thesis
          proof (cases "p_Phase pod = PodSucceeded \<or> p_Phase pod = PodFailed")
            case True
            with ctx ph notRun notDone show ?thesis by (auto simp: Let_def)
          next
            case False
            with ctx ph notRun "4.IH"(5) show ?thesis by (simp add: assigned_fields)
          qed
        qed
      qed
    qed
  qed
qed


lemma watchEvents_prefix:
  assumes "list_all beforeRunning pre" and "\<not> ws_ctxDone s" and "\<not> ws_onceDone s"
    and "ws_phase s \<noteq> PodRunning"
  shows "\<exists>ph. ph \<noteq> PodRunning
          \<and> watchEvents callback closes (pre @ rest) s
              = watchEvents callback closes rest (s\<lparr>ws_phase := ph\<rparr>)"
  using assms
proof (induction pre arbitrary: s)
  case Nil
  have "s\<lparr>ws_phase := ws_phase s\<rparr> = s" by simp
  with Nil.prems(4) show ?case by (intro exI [of _ "ws_phase s"]) simp
next
  case (Cons item pre)
  from Cons.prems(1) have pre: "list_all beforeRunning pre" and it: "beforeRunning item"
    by simp_all
  from it obtain pod where item: "item = WatchEvent (Some pod)"
    and phase: "p_Phase pod \<noteq> PodRunning" "p_Phase pod \<noteq> PodSucceeded" "p_Phase pod \<noteq> PodFailed"
    by (auto simp: beforeRunning_def split: watch_item.splits option.splits)
  show ?case
  proof (cases "p_Phase pod = ws_phase s")
    case True
    have "watchEvents callback closes ((item # pre) @ rest) s
            = watchEvents callback closes (pre @ rest) s"
      using item True Cons.prems(2,3) by (simp add: assigned_not_started)
    with Cons.IH [OF pre Cons.prems(2,3,4)] show ?thesis by simp
  next
    case False
    let ?s' = "s\<lparr>ws_phase := p_Phase pod\<rparr>"
    have step: "watchEvents callback closes ((item # pre) @ rest) s
            = watchEvents callback closes (pre @ rest) ?s'"
      using item False phase Cons.prems(2,3) by (simp add: assigned_not_started)
    have "\<exists>ph. ph \<noteq> PodRunning
          \<and> watchEvents callback closes (pre @ rest) ?s'
              = watchEvents callback closes rest (?s'\<lparr>ws_phase := ph\<rparr>)"
      using pre Cons.prems(2,3) phase(1) by (intro Cons.IH) simp_all
    with step show ?thesis by simp
  qed
qed

lemma watchEvents_running:
  assumes "list_all beforeRunning pre" and "p_Phase pod = PodRunning"
  shows "ws_callbacks (snd (watchEvents (Some f) closes (pre @ WatchEvent (Some pod) # rest)
                              initWatchState)) = [pod]
       \<and> ws_logStreams (snd (watchEvents (Some f) closes (pre @ WatchEvent (Some pod) # rest)
                                initWatchState)) = [pod]"
proof -
  have "\<exists>ph. ph \<noteq> PodRunning
          \<and> watchEvents (Some f) closes (pre @ WatchEvent (Some pod) # rest) initWatchState
              = watchEvents (Some f) closes (WatchEvent (Some pod) # rest)
                  (initWatchState\<lparr>ws_phase := ph\<rparr>)"
    using assms(1) by (intro watchEvents_prefix) (simp_all add: initWatchState_def PodRunning_def)
  then obtain ph where ph: "ph \<noteq> PodRunning"
    and eq: "watchEvents (Some f) closes (pre @ WatchEvent (Some pod) # rest) initWatchState
              = watchEvents (Some f) closes (WatchEvent (Some pod) # rest)
                  (initWatchState\<lparr>ws_phase := ph\<rparr>)" by auto
  let ?s' = "initWatchState\<lparr>ws_phase := ph, ws_onceDone := True, ws_ctxDone := cb_cancels (f pod),
                ws_callbacks := [pod], ws_logStreams := [pod]\<rparr>"
  show ?thesis
  proof (cases "cb_err (f pod)")
    case None
    have "watchEvents (Some f) closes (WatchEvent (Some pod) # rest) (initWatchState\<lparr>ws_phase := ph\<rparr>)
            = watchEvents (Some f) closes rest (?s'\<lparr>ws_phase := p_Phase pod\<rparr>)"
      using ph assms(2) None by (simp add: initWatchState_def Let_def)
    with eq watchEvents_onceDone [of "?s'\<lparr>ws_phase := p_Phase pod\<rparr>" "Some f" closes rest]
    show ?thesis by simp
  next
    case (Some callbackErr)
    with eq ph assms(2) show ?thesis by (simp add: initWatchState_def Let_def)
  qed
qed

lemma watchLoop_fired:
  "wr_callbacks (watchLoop k j) =
     ws_callbacks (snd (watchEvents (podRunningCallback j) (k_watchCloses k) (k_watch k)
                          initWatchState))
   \<and> wr_logStreams (watchLoop k j) =
       ws_logStreams (snd (watchEvents (podRunningCallback j) (k_watchCloses k) (k_watch k)
                             initWatchState))"
  by (simp add: watchLoop_def Let_def split: prod.splits)

lemma Run_fired:
  "rr_callbacks (Run k j) =
     (if k_createErr k = None then wr_callbacks (wait k j) else [])
   \<and> rr_logStreams (Run k j) =
     (if k_createErr k = None then wr_logStreams (wait k j) else [])"
proof (cases "k_createErr k")
  case (Some err)
  then show ?thesis by (simp add: Run_def)
next
  case None
  then show ?thesis
    by (cases "wrapOutcome ''failed to wait'' (wr_outcome (wait k j))")
       (simp_all add: Run_def Let_def split: prod.splits)
qed

lemma wait_fired:
  "wr_callbacks (wait k j) =
     (if k_watchErr k = None then wr_callbacks (watchLoop k j) else [])
   \<and> wr_logStreams (wait k j) =
     (if k_watchErr k = None then wr_logStreams (watchLoop k j) else [])"
  by (cases "k_watchErr k") (simp_all add: wait_def Let_def)

text \<open>
  Claim C5. In every run the callback is called at most once and log streaming is
  started at most once. When the watch delivers a \<open>Running\<close> event while the run still
  watches, each happens exactly once, with the pod of that event, whatever events
  follow it, further \<open>Running\<close> events among them.
\<close>

theorem Run_callback_once:
  "length (rr_callbacks (Run k j)) \<le> 1 \<and> length (rr_logStreams (Run k j)) \<le> 1
   \<and> (k_createErr k = None \<and> k_watchErr k = None \<and> podRunningCallback j = Some f
        \<and> k_watch k = pre @ WatchEvent (Some pod) # rest
        \<and> list_all beforeRunning pre \<and> p_Phase pod = PodRunning
      \<longrightarrow> rr_callbacks (Run k j) = [pod] \<and> rr_logStreams (Run k j) = [pod])"
proof -
  let ?s = "snd (watchEvents (podRunningCallback j) (k_watchCloses k) (k_watch k) initWatchState)"
  from watchEvents_at_most_once [of "podRunningCallback j" "k_watchCloses k" "k_watch k" initWatchState]
  have most: "length (ws_callbacks ?s) \<le> 1 \<and> length (ws_logStreams ?s) \<le> 1"
    by (auto simp: initWatchState_def)
  have fired: "rr_callbacks (Run k j) =
                 (if k_createErr k = None \<and> k_watchErr k = None then ws_callbacks ?s else [])"
    "rr_logStreams (Run k j) =
                 (if k_createErr k = None \<and> k_watchErr k = None then ws_logStreams ?s else [])"
    by (simp_all add: Run_fired wait_fired watchLoop_fired)
  have "rr_callbacks (Run k j) = [pod] \<and> rr_logStreams (Run k j) = [pod]"
    if "k_createErr k = None" "k_watchErr k = None" "podRunningCallback j = Some f"
      "k_watch k = pre @ WatchEvent (Some pod) # rest"
      "list_all beforeRunning pre" "p_Phase pod = PodRunning"
    using that fired watchEvents_running [of pre pod f "k_watchCloses k" rest] by simp
  with most fired show ?thesis by simp
qed

theorem Run_callback_once_witness:
  "k_createErr exDuplicateCluster = None \<and> k_watchErr exDuplicateCluster = None
   \<and> podRunningCallback (exJob\<lparr>podRunningCallback := Some exQuietCallback\<rparr>) = Some exQuietCallback
   \<and> k_watch exDuplicateCluster =
       [WatchEvent (Some exPendingPod)]
       @ WatchEvent (Some exRunningPod)
         # [WatchEvent (Some exRunningPod), WatchEvent (Some exPendingPod),
            WatchEvent (Some exRunningPod), WatchEvent (Some exSucceededPod)]
   \<and> list_all beforeRunning [WatchEvent (Some exPendingPod)]
   \<and> p_Phase exRunningPod = PodRunning
   \<and> rr_callbacks (Run exDuplicateCluster (exJob\<lparr>podRunningCallback := Some exQuietCallback\<rparr>))
       = [exRunningPod]
   \<and> rr_logStreams (Run exDuplicateCluster (exJob\<lparr>podRunningCallback := Some exQuietCallback\<rparr>))
       = [exRunningPod]"
proof -
  let ?j = "exJob\<lparr>podRunningCallback := Some exQuietCallback\<rparr>"
  have h: "k_createErr exDuplicateCluster = None" "k_watchErr exDuplicateCluster = None"
    "podRunningCallback ?j = Some exQuietCallback"
    "k_watch exDuplicateCluster =
       [WatchEvent (Some exPendingPod)]
       @ WatchEvent (Some exRunningPod)
         # [WatchEvent (Some exRunningPod), WatchEvent (Some exPendingPod),
            WatchEvent (Some exRunningPod), WatchEvent (Some exSucceededPod)]"
    "list_all beforeRunning [WatchEvent (Some exPendingPod)]"
    "p_Phase exRunningPod = PodRunning"
    by (simp_all add: exDuplicateCluster_def exCancelCluster_def beforeRunning_def
        exPendingPod_def exRunningPod_def PodRunning_def PodSucceeded_def PodFailed_def)
  from Run_callback_once [of exDuplicateCluster ?j exQuietCallback
      "[WatchEvent (Some exPendingPod)]" exRunningPod
      "[WatchEvent (Some exRunningPod), WatchEvent (Some exPendingPod),
        WatchEvent (Some exRunningPod), WatchEvent (Some exSucceededPod)]"] h
  show ?thesis by simp
qed

section \<open>Runs that are cancelled, runs whose cleanup fails\<close>

lemma podRead_first: "podRead lag started [] = started"
  by (simp add: podRead_def)

lemma exCancel_watch:
  "watchEvents (Some (executionCallback executors exCancelHandler)) True
     [WatchEvent (Some exRunningPod)] initWatchState =
   (Returned None,
    \<lparr>ws_phase = ''Running'', ws_onceDone = True, ws_ctxDone = True,
     ws_callbacks = [exRunningPod], ws_logStreams = [exRunningPod], ws_later = []\<rparr>)"
  by (simp add: initWatchState_def exRunningPod_def PodRunning_def executionCallback_def
      exCancelHandler_def Let_def)

lemma exCancel_logs:
  "disabledCommandLog j \<Longrightarrow>
   logStreamPod j (\<lambda>name. exSilentLog) 0 True exRunningPod =
     (Returned (Some (ErrWrap ''failed to wait''
        (ErrWrap ''failed to log stream container''
           (ErrWrap ''context error'' ErrContextCanceled)))), [[]])"
  by (simp add: logStreamPod_def logStreamContainer_def exSilentLog_def selectCase_def
      exRunningPod_def enabledCommandLog_def errgroup_Wait_def wrapOutcome_def Let_def)

lemma exCancel_watchLoop:
  "wr_outcome (watchLoop exCancelCluster (withExecutionHandler exJob exCancelHandler)) =
     Returned (Some (ErrWrap ''failed to wait in watchLoop''
       (ErrWrap ''failed to log stream pod''
         (ErrWrap ''failed to wait''
           (ErrWrap ''failed to log stream container''
             (ErrWrap ''context error'' ErrContextCanceled))))))"
proof -
  let ?j = "withExecutionHandler exJob exCancelHandler"
  have cb: "podRunningCallback ?j =
              Some (executionCallback (fst (wrapContainers exJob (j_Containers (job_spec exJob))))
                      exCancelHandler)"
    and dis: "disabledCommandLog ?j"
    by (simp_all add: withExecutionHandler_def split: prod.splits)
  have k: "k_watch exCancelCluster = [WatchEvent (Some exRunningPod)]"
    "k_watchCloses exCancelCluster = True" "k_logs exCancelCluster = (\<lambda>name. exSilentLog)"
    "k_pick exCancelCluster = 0"
    by (simp_all add: exCancelCluster_def)
  have we: "watchEvents (podRunningCallback ?j) (k_watchCloses exCancelCluster)
              (k_watch exCancelCluster) initWatchState =
            (Returned None,
             \<lparr>ws_phase = ''Running'', ws_onceDone = True, ws_ctxDone = True,
              ws_callbacks = [exRunningPod], ws_logStreams = [exRunningPod], ws_later = []\<rparr>)"
    by (simp only: cb k exCancel_watch)
  show ?thesis
    unfolding watchLoop_def we
    by (simp add: k podRead_first exCancel_logs [OF dis] errgroup_Wait_def wrapOutcome_def
        Let_def)
qed

text \<open>
  Claim C3. The handler cancels the context as soon as it is called and returns nil;
  the pod is running and silent, and the watch channel closes after the \<open>Running\<close>
  event. The run returns an error, which wraps the context's error; the cleanup has
  deleted the job and the pod.
\<close>

theorem RunWithExecutionHandler_cancel_returns_error:
  "rr_outcome (RunWithExecutionHandler exCancelCluster exJob exCancelHandler) =
     Returned (Some
       (ErrWrap ''failed to run job''
         (ErrWrap ''failed to wait''
           (ErrWrap ''failed to watching''
             (ErrWrap ''failed to wait in watchLoop''
               (ErrWrap ''failed to log stream pod''
                 (ErrWrap ''failed to wait''
                   (ErrWrap ''failed to log stream container''
                     (ErrWrap ''context error'' ErrContextCanceled)))))))))
   \<and> drop 2 (rr_calls (RunWithExecutionHandler exCancelCluster exJob exCancelHandler)) =
       [DeleteJob ''kubejob-x'', ListPods ''kubejob-label-x=kubejob-label-x'',
        DeletePod ''kubejob-x'']"
proof -
  let ?j = "withExecutionHandler exJob exCancelHandler"
  have spec: "j_Name (job_spec ?j) = ''kubejob-x''"
    "j_Labels (job_spec ?j) = [(''kubejob-label-x'', ''kubejob-label-x'')]"
    by (simp_all add: withExecutionHandler_def exJob_def split: prod.splits)
  have sel: "labelSelector (job_spec ?j) = ''kubejob-label-x=kubejob-label-x''"
    by (simp add: labelSelector_def selectorTerms_def labelValue_def spec)
  have w: "wr_outcome (wait exCancelCluster ?j) =
             wrapOutcome ''failed to watching'' (wr_outcome (watchLoop exCancelCluster ?j))"
    by (simp add: wait_def exCancelCluster_def Let_def)
  have c: "cleanup exCancelCluster ?j e =
             (e, [DeleteJob ''kubejob-x'', ListPods ''kubejob-label-x=kubejob-label-x'',
                  DeletePod ''kubejob-x''])" for e
    by (simp add: cleanup_def exCancelCluster_def spec sel exRunningPod_def Let_def)
  have k: "k_roundTripperErr exCancelCluster = None" "k_createErr exCancelCluster = None"
    by (simp_all add: exCancelCluster_def)
  show ?thesis
    by (simp add: RunWithExecutionHandler_def Run_def k w exCancel_watchLoop c wrapOutcome_def
        Let_def)
qed


lemma logStreamContainer_cancelled:
  assumes "ls_openErr ls = None" and "firstSent (ls_reads ls) = None"
  shows "fst (logStreamContainer ls True pod container commandLogOn logOn) =
           Returned (Some (ErrWrap ''context error'' ErrContextCanceled))"
  using assms by (simp add: logStreamContainer_def selectCase_def Let_def)

lemma deletePods_no_error:
  "(\<And>name. k_deletePodErr k name = None) \<Longrightarrow> fst (deletePods k pods e) = e"
proof (induction pods arbitrary: e)
  case Nil
  show ?case by simp
next
  case (Cons pod pods)
  have "fst (deletePods k (pod # pods) e) = fst (deletePods k pods e)"
    using Cons.prems by (simp add: Let_def split: prod.splits)
  with Cons.IH [OF Cons.prems] show ?case by simp
qed

lemma cleanup_job_delete_error:
  assumes "k_deleteJobErr k = Some d" and "\<And>name. k_deletePodErr k name = None"
  shows "fst (cleanup k j e) = Some (ErrWrap ''failed to delete job'' d)"
proof (cases "k_podList k")
  case None
  with assms(1) show ?thesis by (simp add: cleanup_def Let_def)
next
  case (Some pods)
  have "fst (cleanup k j e) = fst (deletePods k pods (Some (ErrWrap ''failed to delete job'' d)))"
    using Some assms(1) by (simp add: cleanup_def Let_def split: prod.splits)
  with deletePods_no_error [of k pods, OF assms(2)] show ?thesis by simp
qed

lemma deletePods_keeps_error:
  "\<exists>e'. fst (deletePods k pods (Some e)) = Some e'"
proof (induction pods arbitrary: e)
  case Nil
  show ?case by simp
next
  case (Cons pod pods)
  show ?case
  proof (cases "k_deletePodErr k (p_Name pod)")
    case None
    then have "fst (deletePods k (pod # pods) (Some e)) = fst (deletePods k pods (Some e))"
      by (simp add: Let_def split: prod.splits)
    with Cons.IH [of e] show ?thesis by simp
  next
    case (Some d)
    let ?e1 = "ErrPlain (k_Sprintf k (Join [Error_msg e, Error_msg (ErrWrap ''failed to delete pod'' d)]
                                        ''\<newline>''))"
    from Some have "fst (deletePods k (pod # pods) (Some e)) = fst (deletePods k pods (Some ?e1))"
      by (simp add: Let_def split: prod.splits)
    with Cons.IH [of ?e1] show ?thesis by simp
  qed
qed

text \<open>
  A failed pod delete keeps the text of the error before it, when neither message
  holds a \<open>%\<close> for \<open>fmt\<close> to rewrite.
\<close>

lemma deletePods_keeps_message:
  assumes fmt: "\<And>text. CHR ''%'' \<notin> set text \<Longrightarrow> k_Sprintf k text = text"
    and errs: "\<And>name d. k_deletePodErr k name = Some d \<Longrightarrow> CHR ''%'' \<notin> set (Error_msg d)"
    and e: "CHR ''%'' \<notin> set (Error_msg e)"
  shows "\<exists>e' more. fst (deletePods k pods (Some e)) = Some e' \<and> Error_msg e' = Error_msg e @ more"
  using e
proof (induction pods arbitrary: e)
  case Nil
  show ?case by simp
next
  case (Cons pod pods)
  show ?case
  proof (cases "k_deletePodErr k (p_Name pod)")
    case None
    then have "fst (deletePods k (pod # pods) (Some e)) = fst (deletePods k pods (Some e))"
      by (simp add: Let_def split: prod.splits)
    with Cons.IH [OF Cons.prems] show ?thesis by simp
  next
    case (Some d)
    let ?joined = "Join [Error_msg e, Error_msg (ErrWrap ''failed to delete pod'' d)] ''\<newline>''"
    let ?e1 = "ErrPlain (k_Sprintf k ?joined)"
    have clean: "CHR ''%'' \<notin> set ?joined"
      using Cons.prems errs [OF Some] by simp
    then have "k_Sprintf k ?joined = ?joined" by (rule fmt)
    then have msg: "Error_msg ?e1 = ?joined" by simp
    from Some have step: "fst (deletePods k (pod # pods) (Some e)) = fst (deletePods k pods (Some ?e1))"
      by (simp add: Let_def split: prod.splits)
    have "CHR ''%'' \<notin> set (Error_msg ?e1)" using clean msg by simp
    from Cons.IH [OF this] obtain e' more where
      "fst (deletePods k pods (Some ?e1)) = Some e'" "Error_msg e' = Error_msg ?e1 @ more"
      by auto
    with step msg show ?thesis by simp
  qed
qed

lemma exDeleteFail_watch:
  "watchEvents None True [WatchEvent (Some exFailedPod)] initWatchState =
   (Returned (Some (ErrFailedJob \<lparr>fj_Pod = Some exFailedPod\<rparr>)),
    \<lparr>ws_phase = [], ws_onceDone = True, ws_ctxDone = False,
     ws_callbacks = [], ws_logStreams = [exFailedPod], ws_later = []\<rparr>)"
proof -
  have "p_Phase exFailedPod = ''Failed''" by (simp add: exFailedPod_def)
  then show ?thesis
    by (simp add: initWatchState_def PodRunning_def PodSucceeded_def PodFailed_def Let_def)
qed

lemma exEndedLog_container:
  "fst (logStreamContainer exEndedLog False pod container commandLogOn logOn) = Returned None"
  by (simp add: logStreamContainer_def exEndedLog_def selectCase_def Let_def)

lemma exDeleteFail_logs:
  "fst (logStreamPod j (\<lambda>name. exEndedLog) 0 False exFailedPod) = Returned None"
proof -
  have c: "logStreamContainer exEndedLog False pod container commandLogOn logOn =
             (Returned None,
              snd (logStreamContainer exEndedLog False pod container commandLogOn logOn))"
    for pod container commandLogOn logOn
    using exEndedLog_container [of pod container commandLogOn logOn]
    by (metis prod.collapse)
  have init: "fst (logStreamInitContainers j (\<lambda>name. exEndedLog) False exFailedPod [exInit])
                = Returned None"
    by (subst logStreamInitContainers.simps, subst c) (simp split: prod.splits)
  have "p_InitContainers exFailedPod = [exInit]" "p_Containers exFailedPod = [exTest, exSidecar]"
    by (simp_all add: exFailedPod_def)
  with init show ?thesis
    by (auto simp: logStreamPod_def Let_def exEndedLog_container errgroup_Wait_def
        wrapOutcome_def split: prod.splits outcome.splits option.splits)
qed

text \<open>
  Claim C4. The pod fails, so that \<open>wait\<close> returns a \<open>FailedJob\<close>, and deleting the job
  fails: \<open>Run\<close> returns the error of the delete alone. (The calls of the cleanup are
  those of \<open>cleanup_calls\<close> on every return of \<open>wait\<close>, and a failed pod delete keeps
  the error before it, \<open>deletePods_keeps_error\<close>, and its text when no message holds
  a \<open>%\<close>, \<open>deletePods_keeps_message\<close>.)
\<close>

theorem Run_job_delete_error_replaces_run_error:
  "wr_outcome (wait exDeleteFailCluster exJob) =
     Returned (Some (ErrWrap ''failed to watching''
       (ErrWrap ''failed to wait in watchLoop''
         (ErrFailedJob \<lparr>fj_Pod = Some exFailedPod\<rparr>))))
   \<and> rr_outcome (Run exDeleteFailCluster exJob) =
       Returned (Some (ErrWrap ''failed to delete job''
         (ErrExternal ''the server is currently unable to handle the request'')))"
proof -
  have k: "k_createErr exDeleteFailCluster = None" "k_watchErr exDeleteFailCluster = None"
    "k_watch exDeleteFailCluster = [WatchEvent (Some exFailedPod)]"
    "k_watchCloses exDeleteFailCluster = True"
    "k_logs exDeleteFailCluster = (\<lambda>name. exEndedLog)"
    "k_pick exDeleteFailCluster = 0"
    "k_deleteJobErr exDeleteFailCluster
       = Some (ErrExternal ''the server is currently unable to handle the request'')"
    "\<And>name. k_deletePodErr exDeleteFailCluster name = None"
    by (simp_all add: exDeleteFailCluster_def)
  have cb: "podRunningCallback exJob = None" by (simp add: exJob_def)
  have we: "watchEvents (podRunningCallback exJob) (k_watchCloses exDeleteFailCluster)
              (k_watch exDeleteFailCluster) initWatchState =
            (Returned (Some (ErrFailedJob \<lparr>fj_Pod = Some exFailedPod\<rparr>)),
             \<lparr>ws_phase = [], ws_onceDone = True, ws_ctxDone = False,
              ws_callbacks = [], ws_logStreams = [exFailedPod], ws_later = []\<rparr>)"
    by (simp only: cb k exDeleteFail_watch)
  have wl: "wr_outcome (watchLoop exDeleteFailCluster exJob) =
              Returned (Some (ErrWrap ''failed to wait in watchLoop''
                (ErrFailedJob \<lparr>fj_Pod = Some exFailedPod\<rparr>)))"
    unfolding watchLoop_def we
    by (simp add: k podRead_first exDeleteFail_logs errgroup_Wait_def wrapOutcome_def Let_def)
  have w: "wr_outcome (wait exDeleteFailCluster exJob) =
     Returned (Some (ErrWrap ''failed to watching''
       (ErrWrap ''failed to wait in watchLoop''
         (ErrFailedJob \<lparr>fj_Pod = Some exFailedPod\<rparr>))))"
    by (simp add: wait_def k wl wrapOutcome_def Let_def)
  have c: "fst (cleanup exDeleteFailCluster exJob e) =
             Some (ErrWrap ''failed to delete job''
               (ErrExternal ''the server is currently unable to handle the request''))" for e
    by (rule cleanup_job_delete_error) (simp_all add: k)
  have "rr_outcome (Run exDeleteFailCluster exJob) =
          Returned (fst (cleanup exDeleteFailCluster exJob
            (Some (ErrWrap ''failed to wait'' (ErrWrap ''failed to watching''
               (ErrWrap ''failed to wait in watchLoop''
                  (ErrFailedJob \<lparr>fj_Pod = Some exFailedPod\<rparr>)))))))"
    by (simp add: Run_def k w wrapOutcome_def Let_def split: prod.splits)
  with w c show ?thesis by simp
qed


section \<open>Properties of log streaming\<close>





lemma logStreamContainer_events:
  "snd (logStreamContainer ls ctxDone pod container commandLogOn logOn) =
     (case ls_openErr ls of
        Some err \<Rightarrow> []
      | None \<Rightarrow>
          (if commandLogOn then [commandLog pod container] else [])
          @ readerLoop logOn pod container (ls_reads ls)
              (case selectCase ctxDone (ls_ctxFirst ls) (firstSent (ls_reads ls)) of
                 SelectErrchan v \<Rightarrow> 2 | _ \<Rightarrow> 1))"
  by (simp add: logStreamContainer_def Let_def split: option.splits)




text \<open>
  The reading goroutine does not leave its loop after end-of-file: when the next read
  returns end-of-file again, the event is sent again. Here two reads return
  end-of-file and two events are sent.
\<close>

lemma logStreamContainer_repeats_finish:
  "length (finishEvents (snd (logStreamContainer exEndedLog False exRunningPod exTest True True)))
     = 2"
  by (simp add: logStreamContainer_events exEndedLog_def selectCase_def finishEvents_def
      commandLog_def)

section \<open>Further properties\<close>

text \<open>Whatever the command writes, \<open>exec\<close> and \<open>Exec\<close> return no bytes.\<close>

lemma exec_output_empty:
  "exec cluster e cmd w = Inr (out, err, w') \<Longrightarrow> out = []"
  by (auto simp: exec_def Let_def newBuffer_def buffer_Bytes_def
      split: option.splits sum.splits prod.splits)

lemma Exec_output_empty:
  "Exec cluster e w = Inr (out, err, w') \<Longrightarrow> out = []"
  by (auto simp: Exec_def Let_def split: sum.splits prod.splits dest: exec_output_empty)

text \<open>
  A run whose callback cancels the context never returns nil when the pod has a
  container whose log stream is open and silent: the group of the watch loop holds a
  goroutine that returns the context's error, and the cleanup keeps an error it is
  given.
\<close>

lemma errorsOf_empty:
  "panicsOf rs = [] \<Longrightarrow> Blocked \<notin> set rs \<Longrightarrow> errorsOf rs = [] \<Longrightarrow>
   r \<in> set rs \<Longrightarrow> r = Returned None"
  by (induction rs rule: errorsOf.induct) auto

lemma errgroup_Wait_not_nil:
  assumes "r \<in> set rs" and "r \<noteq> Returned None"
  shows "errgroup_Wait pick rs \<noteq> Returned None"
proof (cases "panicsOf rs")
  case (Cons p ps)
  then show ?thesis by (simp add: errgroup_Wait_def)
next
  case Nil
  show ?thesis
  proof (cases "Blocked \<in> set rs")
    case True
    with Nil show ?thesis by (simp add: errgroup_Wait_def)
  next
    case False
    with Nil assms errorsOf_empty [of rs r] have "errorsOf rs \<noteq> []" by auto
    with Nil False show ?thesis
      by (simp add: errgroup_Wait_def split: list.splits)
  qed
qed

lemma wrapOutcome_not_nil:
  "r \<noteq> Returned None \<Longrightarrow> wrapOutcome msg r \<noteq> Returned None"
  by (auto simp: wrapOutcome_def split: outcome.splits option.splits)

lemma cleanup_keeps_error:
  "fst (cleanup k j (Some e)) \<noteq> None"
proof -
  obtain e1 where e1: "(case k_deleteJobErr k of
                          Some d \<Rightarrow> Some (ErrWrap ''failed to delete job'' d)
                        | None \<Rightarrow> Some e) = Some e1"
    by (cases "k_deleteJobErr k") auto
  show ?thesis
  proof (cases "k_podList k")
    case None
    with e1 show ?thesis by (simp add: cleanup_def Let_def)
  next
    case (Some pods)
    with e1 have "fst (cleanup k j (Some e)) = fst (deletePods k pods (Some e1))"
      by (simp add: cleanup_def Let_def split: prod.splits)
    with deletePods_keeps_error [of k pods e1] show ?thesis by auto
  qed
qed

lemma watchEvents_ctxDone:
  "ws_ctxDone s \<Longrightarrow> ws_ctxDone (snd (watchEvents callback closes items s))"
  by (induction callback closes items s rule: watchEvents.induct)
     (simp_all add: assigned_fields)

lemma watchEvents_later:
  "set (ws_later (snd (watchEvents callback closes items s)))
     \<subseteq> set (ws_later s) \<union> {q. WatchEvent (Some q) \<in> set items}"
proof (induction callback closes items s rule: watchEvents.induct)
  case (1 callback closes s)
  show ?case by simp
next
  case (2 callback closes items s)
  then show ?case by auto
next
  case (3 callback closes items s)
  show ?case by simp
next
  case (4 callback closes pod items s)
  have a: "set (ws_later (assigned pod s)) \<subseteq> insert pod (set (ws_later s))"
    by (auto simp: assigned_def)
  show ?case
  proof (cases "ws_ctxDone s")
    case True
    with a show ?thesis by auto
  next
    case ctx: False
    show ?thesis
    proof (cases "p_Phase pod = ws_phase s")
      case True
      with ctx "4.IH"(1) a show ?thesis by auto
    next
      case ph: False
      show ?thesis
      proof (cases "p_Phase pod = PodRunning")
        case run: True
        show ?thesis
        proof (cases "ws_onceDone s")
          case True
          with ctx ph run "4.IH"(2) a show ?thesis by auto
        next
          case notDone: False
          show ?thesis
          proof (cases callback)
            case None
            with ctx ph run notDone "4.IH"(3) show ?thesis by auto
          next
            case (Some f)
            show ?thesis
            proof (cases "cb_err (f pod)")
              case None
              with ctx ph run notDone Some "4.IH"(4) [OF ctx ph run notDone Some refl None]
              show ?thesis by (auto simp: Let_def)
            next
              case (Some callbackErr)
              with ctx ph run notDone \<open>callback = Some f\<close> show ?thesis by (simp add: Let_def)
            qed
          qed
        qed
      next
        case notRun: False
        show ?thesis
        proof (cases "p_Phase pod = PodSucceeded \<or> p_Phase pod = PodFailed")
          case True
          with ctx ph notRun a show ?thesis by (auto simp: Let_def)
        next
          case False
          with ctx ph notRun "4.IH"(5) a show ?thesis by auto
        qed
      qed
    qed
  qed
qed

lemma podRead_mem: "podRead lag started later \<in> set (started # later)"
  unfolding podRead_def by (rule nth_mem) simp

lemma watchEvents_running_cancel:
  assumes "list_all beforeRunning pre" and "p_Phase pod = PodRunning" and "cb_cancels (f pod)"
  shows "ws_ctxDone (snd (watchEvents (Some f) closes (pre @ WatchEvent (Some pod) # rest)
                            initWatchState))"
proof -
  have "\<exists>ph. ph \<noteq> PodRunning
          \<and> watchEvents (Some f) closes (pre @ WatchEvent (Some pod) # rest) initWatchState
              = watchEvents (Some f) closes (WatchEvent (Some pod) # rest)
                  (initWatchState\<lparr>ws_phase := ph\<rparr>)"
    using assms(1) by (intro watchEvents_prefix) (simp_all add: initWatchState_def PodRunning_def)
  then obtain ph where ph: "ph \<noteq> PodRunning"
    and eq: "watchEvents (Some f) closes (pre @ WatchEvent (Some pod) # rest) initWatchState
              = watchEvents (Some f) closes (WatchEvent (Some pod) # rest)
                  (initWatchState\<lparr>ws_phase := ph\<rparr>)" by auto
  let ?s' = "initWatchState\<lparr>ws_phase := ph, ws_onceDone := True, ws_ctxDone := True,
                ws_callbacks := [pod], ws_logStreams := [pod]\<rparr>"
  show ?thesis
  proof (cases "cb_err (f pod)")
    case None
    have "watchEvents (Some f) closes (WatchEvent (Some pod) # rest) (initWatchState\<lparr>ws_phase := ph\<rparr>)
            = watchEvents (Some f) closes rest (?s'\<lparr>ws_phase := p_Phase pod\<rparr>)"
      using ph assms(2,3) None by (simp add: initWatchState_def Let_def)
    with eq watchEvents_ctxDone [of "?s'\<lparr>ws_phase := p_Phase pod\<rparr>" "Some f" closes rest]
    show ?thesis by simp
  next
    case (Some callbackErr)
    with eq ph assms(2,3) show ?thesis by (simp add: initWatchState_def Let_def)
  qed
qed

lemma logStreamPod_cancelled:
  assumes "p_InitContainers pod = []" and "container \<in> set (p_Containers pod)"
    and "ls_openErr (logs (c_Name container)) = None"
    and "firstSent (ls_reads (logs (c_Name container))) = None"
  shows "fst (logStreamPod j logs pick True pod) \<noteq> Returned None"
proof -
  let ?one = "\<lambda>container.
                 logStreamContainer (logs (c_Name container)) True pod container
                   (enabledCommandLog j) (\<not> disabledContainerLog j)"
  let ?rs = "map (\<lambda>r. wrapOutcome ''failed to log stream container'' (fst r))
               (map ?one (p_Containers pod))"
  have "fst (?one container) \<noteq> Returned None"
    using logStreamContainer_cancelled [OF assms(3,4)] by simp
  then have "wrapOutcome ''failed to log stream container'' (fst (?one container)) \<noteq> Returned None"
    by (rule wrapOutcome_not_nil)
  moreover have "wrapOutcome ''failed to log stream container'' (fst (?one container)) \<in> set ?rs"
    using assms(2) by (simp add: image_iff) blast
  ultimately have "errgroup_Wait pick ?rs \<noteq> Returned None"
    by (intro errgroup_Wait_not_nil [where r = "wrapOutcome ''failed to log stream container'' (fst (?one container))"])
  then have "wrapOutcome ''failed to wait'' (errgroup_Wait pick ?rs) \<noteq> Returned None"
    by (rule wrapOutcome_not_nil)
  then show ?thesis
    using assms(1) by (simp add: logStreamPod_def Let_def)
qed

lemma Run_cancelled_by_callback:
  assumes "k_createErr k = None" and "k_watchErr k = None"
    and "podRunningCallback j = Some f"
    and "k_watch k = pre @ WatchEvent (Some pod) # rest"
    and "list_all beforeRunning pre" and "p_Phase pod = PodRunning"
    and "cb_cancels (f pod)"
    and silent: "\<And>q. WatchEvent (Some q) \<in> set (k_watch k) \<Longrightarrow>
           p_InitContainers q = []
           \<and> (\<exists>container \<in> set (p_Containers q).
                 ls_openErr (k_logs k (c_Name container)) = None
                 \<and> firstSent (ls_reads (k_logs k (c_Name container))) = None)"
  shows "rr_outcome (Run k j) \<noteq> Returned None"
proof -
  let ?ws = "watchEvents (Some f) (k_watchCloses k) (pre @ WatchEvent (Some pod) # rest)
               initWatchState"
  obtain r s where ws: "?ws = (r, s)" by (cases ?ws)
  have streams: "ws_logStreams s = [pod]"
    using watchEvents_running [OF assms(5,6), of f "k_watchCloses k" rest] ws by simp
  have cancelled: "ws_ctxDone s"
    using watchEvents_running_cancel [where f = f and pod = pod, OF assms(5,6,7),
        of "k_watchCloses k" rest] ws by simp
  let ?read = "podRead (k_streamLag k) pod (ws_later s)"
  have "set (ws_later s) \<subseteq> {q. WatchEvent (Some q) \<in> set (k_watch k)}"
    using watchEvents_later [of "Some f" "k_watchCloses k" "k_watch k" initWatchState] ws assms(4)
    by (simp add: initWatchState_def)
  with podRead_mem [of "k_streamLag k" pod "ws_later s"] assms(4)
  have "WatchEvent (Some ?read) \<in> set (k_watch k)" by auto
  from silent [OF this] obtain container where c: "p_InitContainers ?read = []"
    "container \<in> set (p_Containers ?read)"
    "ls_openErr (k_logs k (c_Name container)) = None"
    "firstSent (ls_reads (k_logs k (c_Name container))) = None" by auto
  let ?log = "wrapOutcome ''failed to log stream pod''
                (fst (logStreamPod j (k_logs k) (k_pick k) True ?read))"
  have "?log \<noteq> Returned None"
    using logStreamPod_cancelled [where logs = "k_logs k" and container = container
        and pod = ?read, OF c]
    by (intro wrapOutcome_not_nil)
  then have "errgroup_Wait (k_pick k) [r, ?log] \<noteq> Returned None"
    by (intro errgroup_Wait_not_nil [where r = ?log]) simp_all
  then have "wrapOutcome ''failed to wait in watchLoop'' (errgroup_Wait (k_pick k) [r, ?log])
               \<noteq> Returned None"
    by (rule wrapOutcome_not_nil)
  moreover have "wr_outcome (watchLoop k j) =
                   wrapOutcome ''failed to wait in watchLoop'' (errgroup_Wait (k_pick k) [r, ?log])"
    using ws streams cancelled assms(3,4) by (simp add: watchLoop_def Let_def)
  ultimately have loop: "wr_outcome (watchLoop k j) \<noteq> Returned None" by simp
  then have "wrapOutcome ''failed to watching'' (wr_outcome (watchLoop k j)) \<noteq> Returned None"
    by (rule wrapOutcome_not_nil)
  then have "wr_outcome (wait k j) \<noteq> Returned None"
    using assms(2) by (simp add: wait_def Let_def)
  then have w: "wrapOutcome ''failed to wait'' (wr_outcome (wait k j)) \<noteq> Returned None"
    by (rule wrapOutcome_not_nil)
  show ?thesis
  proof (cases "wrapOutcome ''failed to wait'' (wr_outcome (wait k j))")
    case (Returned e)
    with w obtain err where e: "e = Some err" by (cases e) auto
    obtain e' dels where c: "cleanup k j (Some err) = (e', dels)"
      by (cases "cleanup k j (Some err)")
    with cleanup_keeps_error [of k j err] have "e' \<noteq> None" by simp
    with Returned e c assms(1) show ?thesis by (simp add: Run_def Let_def)
  next
    case Blocked
    with assms(1) show ?thesis by (simp add: Run_def Let_def)
  next
    case (Panicked p)
    with assms(1) show ?thesis by (simp add: Run_def Let_def)
  qed
qed

end
